theory Spec2Isabelle
  imports
    Complex_Main
    "HOL-Library.Sublist"
    "HOL-Library.Char_ord"
    "HOL-Library.List_Lexorder"
begin

section \<open>Python values and string builtins\<close>

text \<open>
  Text is a list of 8-bit characters, read as code points below 256.  Python floats are
  modelled by exact rationals: the special values \<open>inf\<close> and \<open>nan\<close> and the rounding
  of binary64 arithmetic are outside the model.  Letters outside ASCII are treated as
  uncased by \<open>py_lower\<close> and \<open>py_title\<close>.
\<close>

datatype pyval = VNone | VStr string | VInt int | VFloat rat

datatype py_error = KeyError | AttributeError | IndexError | APIError
  \<comment> \<open>\<open>APIError\<close>: what a remote call of the spreadsheet library raises when it fails\<close>

fun truthy :: "pyval \<Rightarrow> bool" where
  "truthy VNone = False"
| "truthy (VStr s) = (s \<noteq> [])"
| "truthy (VInt n) = (n \<noteq> 0)"
| "truthy (VFloat q) = (q \<noteq> 0)"

definition ascii_lowercase :: string where
  "ascii_lowercase = ''abcdefghijklmnopqrstuvwxyz''"

definition ascii_uppercase :: string where
  "ascii_uppercase = ''ABCDEFGHIJKLMNOPQRSTUVWXYZ''"

definition ascii_digits :: string where
  "ascii_digits = ''0123456789''"

definition py_whitespace :: string where
  "py_whitespace = [CHR 0x09, CHR 0x0A, CHR 0x0B, CHR 0x0C, CHR 0x0D,
                    CHR 0x1C, CHR 0x1D, CHR 0x1E, CHR 0x1F, CHR 0x20, CHR 0x85, CHR 0xA0]"

definition is_lower :: "char \<Rightarrow> bool" where
  "is_lower c = (c \<in> set ascii_lowercase)"

definition is_upper :: "char \<Rightarrow> bool" where
  "is_upper c = (c \<in> set ascii_uppercase)"

definition is_digit :: "char \<Rightarrow> bool" where
  "is_digit c = (c \<in> set ascii_digits)"

definition is_space :: "char \<Rightarrow> bool" where
  "is_space c = (c \<in> set py_whitespace)"

definition lower_char :: "char \<Rightarrow> char" where
  "lower_char c = (case map_of (zip ascii_uppercase ascii_lowercase) c of Some d \<Rightarrow> d | None \<Rightarrow> c)"

definition upper_char :: "char \<Rightarrow> char" where
  "upper_char c = (case map_of (zip ascii_lowercase ascii_uppercase) c of Some d \<Rightarrow> d | None \<Rightarrow> c)"

definition py_lower :: "string \<Rightarrow> string" where
  "py_lower s = map lower_char s"

text \<open>\<open>str.title()\<close>: a cased character is upper-cased when the character before it is
  not cased and lower-cased when it is.\<close>

fun title_from :: "bool \<Rightarrow> string \<Rightarrow> string" where
  "title_from prev [] = []"
| "title_from prev (c # cs) =
     (if is_lower c then (if prev then c else upper_char c) # title_from True cs
      else if is_upper c then (if prev then lower_char c else c) # title_from True cs
      else c # title_from False cs)"

definition py_title :: "string \<Rightarrow> string" where
  "py_title s = title_from False s"

text \<open>\<open>s.replace(old, new)\<close> for a non-empty \<open>old\<close>: every non-overlapping occurrence,
  from the left.\<close>

function py_replace :: "string \<Rightarrow> string \<Rightarrow> string \<Rightarrow> string" where
  "py_replace old new [] = []"
| "py_replace old new (c # cs) =
     (if old \<noteq> [] \<and> prefix old (c # cs)
      then new @ py_replace old new (drop (length old) (c # cs))
      else c # py_replace old new cs)"
  by pat_completeness auto
termination
  by (relation "measure (\<lambda>(old, new, s). length s)") auto

text \<open>\<open>s.split()\<close> splits at runs of whitespace; \<open>s.split(sep)\<close> at every \<open>sep\<close>.\<close>

fun split_ws_from :: "string \<Rightarrow> string \<Rightarrow> string list" where
  "split_ws_from cur [] = (if cur = [] then [] else [cur])"
| "split_ws_from cur (c # cs) =
     (if is_space c then (if cur = [] then split_ws_from [] cs else cur # split_ws_from [] cs)
      else split_ws_from (cur @ [c]) cs)"

definition py_split :: "string \<Rightarrow> string list" where
  "py_split s = split_ws_from [] s"

fun split_on_from :: "char \<Rightarrow> string \<Rightarrow> string \<Rightarrow> string list" where
  "split_on_from sep cur [] = [cur]"
| "split_on_from sep cur (c # cs) =
     (if c = sep then cur # split_on_from sep [] cs else split_on_from sep (cur @ [c]) cs)"

definition py_split_on :: "char \<Rightarrow> string \<Rightarrow> string list" where
  "py_split_on sep s = split_on_from sep [] s"

fun py_join :: "string \<Rightarrow> string list \<Rightarrow> string" where
  "py_join sep [] = []"
| "py_join sep [x] = x"
| "py_join sep (x # y # ys) = x @ sep @ py_join sep (y # ys)"

definition py_strip :: "string \<Rightarrow> string" where
  "py_strip s = rev (dropWhile is_space (rev (dropWhile is_space s)))"

definition py_isdigit :: "string \<Rightarrow> bool" where
  "py_isdigit s = (s \<noteq> [] \<and> list_all is_digit s)"

definition digit_val :: "char \<Rightarrow> nat" where
  "digit_val c = (case map_of (zip ascii_digits [0 ..< 10]) c of Some d \<Rightarrow> d | None \<Rightarrow> 0)"

definition py_int :: "string \<Rightarrow> nat" where
  \<comment> \<open>\<open>int(s)\<close> of a string of decimal digits\<close>
  "py_int s = foldl (\<lambda>n c. 10 * n + digit_val c) 0 s"

fun str_of_nat :: "nat \<Rightarrow> string" where
  "str_of_nat n =
     (if n < 10 then [ascii_digits ! n] else str_of_nat (n div 10) @ [ascii_digits ! (n mod 10)])"

definition str_of_int :: "int \<Rightarrow> string" where
  "str_of_int i = (if i < 0 then CHR ''-'' # str_of_nat (nat (- i)) else str_of_nat (nat i))"

text \<open>\<open>round(x, 2)\<close> and the format \<open>:.2f\<close>: to the nearest hundredth, ties to even.\<close>

definition round_half_even :: "rat \<Rightarrow> int" where
  "round_half_even q =
     (let f = \<lfloor>q\<rfloor>; d = q - of_int f
      in if d < 1 / 2 then f else if 1 / 2 < d then f + 1 else if even f then f else f + 1)"

definition py_round2 :: "rat \<Rightarrow> rat" where
  "py_round2 q = of_int (round_half_even (q * 100)) / 100"

definition format_2f :: "rat \<Rightarrow> string" where
  "format_2f q =
     (let n = round_half_even (q * 100); m = nat \<bar>n\<bar>
      in (if n < 0 then [CHR ''-''] else []) @ str_of_nat (m div 100) @ [CHR ''.''] @
         [ascii_digits ! (m mod 100 div 10), ascii_digits ! (m mod 10)])"

text \<open>A \<open>dict\<close> with string keys keeps insertion order: an association list with one
  entry for each key.\<close>

type_synonym 'v dict = "(string \<times> 'v) list"

fun dict_set :: "string \<Rightarrow> 'v \<Rightarrow> 'v dict \<Rightarrow> 'v dict" where
  "dict_set k v [] = [(k, v)]"
| "dict_set k v ((k', v') # d) = (if k' = k then (k, v) # d else (k', v') # dict_set k v d)"

definition dict_of_pairs :: "(string \<times> 'v) list \<Rightarrow> 'v dict" where
  \<comment> \<open>\<open>dict(pairs)\<close>\<close>
  "dict_of_pairs ps = foldl (\<lambda>d (k, v). dict_set k v d) [] ps"

definition dict_get :: "'v dict \<Rightarrow> string \<Rightarrow> 'v option" where
  "dict_get d k = map_of d k"

text \<open>\<open>xs.index(x)\<close>; \<open>None\<close> stands for the \<open>ValueError\<close>.\<close>

fun py_index :: "'a list \<Rightarrow> 'a \<Rightarrow> nat option" where
  "py_index [] x = None"
| "py_index (y # ys) x = (if y = x then Some 0 else map_option Suc (py_index ys x))"

section \<open>config.py\<close>

definition ID_FIELD :: string where "ID_FIELD = ''id''"
definition TIMESTAMP_FIELD :: string where "TIMESTAMP_FIELD = ''timestamp''"
definition EMAIL_FIELD :: string where "EMAIL_FIELD = ''email_address''"
definition PRODUCT_FIELD :: string where "PRODUCT_FIELD = ''product_list''"
definition PRICE_FIELD :: string where "PRICE_FIELD = ''buying_price''"
definition LOCATION_FIELD :: string where "LOCATION_FIELD = ''location''"
definition REMARK_FIELD :: string where "REMARK_FIELD = ''production_remark''"

definition DEFAULT_HEADERS :: "string list" where
  "DEFAULT_HEADERS = [ID_FIELD, TIMESTAMP_FIELD, EMAIL_FIELD, PRODUCT_FIELD, PRICE_FIELD,
                      LOCATION_FIELD, REMARK_FIELD]"

lemmas field_defs = ID_FIELD_def TIMESTAMP_FIELD_def EMAIL_FIELD_def PRODUCT_FIELD_def
  PRICE_FIELD_def LOCATION_FIELD_def REMARK_FIELD_def

definition PRODUCTS :: "string list" where
  "PRODUCTS =
    [''Red Onion Grade A Restaurant quality'', ''Red Onion Grade B'', ''Red Onion Grade C'',
     ''Red Onion Elfora'', ''Potatoes'', ''Potatoes Restaurant Quality'',
     ''Tomatoes Grade B'', ''Tomatoes Grade A'', ''Carrot'', ''Chilly Green'',
     ''Chilly Green (Elfora)'', ''White Cabbage'', ''White Cabbage (Small)'',
     ''White Cabbage (Large)'', ''Avocado'', ''Strawberry'', ''Papaya'', ''Courgette'',
     ''Cucumber'', ''Garlic'', ''Ginger'', ''Pineapple'', ''Apple Mango'', ''Lemon'',
     ''Apple'', ''Valencia Orange'', ''Yerer Orange'', ''Avocado Shekaraw'',
     ''Beet root'', ''Corn'', ''Orange'', ''Green Beans'', ''Salad'', ''Broccoli'']"

definition LOCATIONS :: "string list" where
  "LOCATIONS =
    [''Distribution Center 1 Gerji'',
     ''Distribution Center 2 Garment'',
     ''Distribution Center 3 02'',
     ''Distribution Center Lemi Kura/Alem Bank'']"

text \<open>The conversation states are the integers that \<open>_generate_unique_states\<close> hands out
  in the order of the module; \<open>END\<close> is the library's \<open>ConversationHandler.END\<close>.\<close>

definition END :: int where "END = - 1"

definition CREATE_CHOOSE_ENTRY_TYPE :: int where "CREATE_CHOOSE_ENTRY_TYPE = 0"
definition CREATE_BATCH_SELECT_LOCATION :: int where "CREATE_BATCH_SELECT_LOCATION = 1"
definition CREATE_BATCH_ENTER_REMARK :: int where "CREATE_BATCH_ENTER_REMARK = 2"
definition CREATE_BATCH_TOGGLE_PRODUCTS :: int where "CREATE_BATCH_TOGGLE_PRODUCTS = 3"
definition CREATE_BATCH_ENTER_PRICE :: int where "CREATE_BATCH_ENTER_PRICE = 4"
definition CREATE_BATCH_CONFIRM_SUBMISSION :: int where "CREATE_BATCH_CONFIRM_SUBMISSION = 5"
definition CREATE_SINGLE_SELECT_PRODUCT :: int where "CREATE_SINGLE_SELECT_PRODUCT = 6"
definition CREATE_SINGLE_ENTER_PRICE :: int where "CREATE_SINGLE_ENTER_PRICE = 7"
definition CREATE_SINGLE_SELECT_LOCATION :: int where "CREATE_SINGLE_SELECT_LOCATION = 8"
definition CREATE_SINGLE_ENTER_REMARK :: int where "CREATE_SINGLE_ENTER_REMARK = 9"
definition CREATE_SINGLE_CONFIRM_SUBMISSION :: int where "CREATE_SINGLE_CONFIRM_SUBMISSION = 10"
definition UPDATE_ASK_ID :: int where "UPDATE_ASK_ID = 11"
definition UPDATE_SELECT_FIELDS_TOGGLE :: int where "UPDATE_SELECT_FIELDS_TOGGLE = 12"
definition UPDATE_ENTER_MULTIPLE_VALUES :: int where "UPDATE_ENTER_MULTIPLE_VALUES = 13"
definition UPDATE_CONFIRM_MULTIPLE :: int where "UPDATE_CONFIRM_MULTIPLE = 14"
definition DELETE_ASK_ID :: int where "DELETE_ASK_ID = 15"
definition DELETE_CONFIRM :: int where "DELETE_CONFIRM = 16"
definition VIEW_AWAITING_MENU_CHOICE :: int where "VIEW_AWAITING_MENU_CHOICE = 17"
definition VIEW_AWAITING_ID_INPUT :: int where "VIEW_AWAITING_ID_INPUT = 18"
definition VIEW_PAGINATING_ENTRIES :: int where "VIEW_PAGINATING_ENTRIES = 19"
definition MENU_MAIN_DISPLAYED :: int where "MENU_MAIN_DISPLAYED = 20"
definition INSIGHTS_MENU_DISPLAYED :: int where "INSIGHTS_MENU_DISPLAYED = 21"
definition INSIGHTS_AWAITING_PRODUCT :: int where "INSIGHTS_AWAITING_PRODUCT = 22"
definition INSIGHTS_AWAITING_LOCATION :: int where "INSIGHTS_AWAITING_LOCATION = 23"

lemmas state_defs = END_def CREATE_CHOOSE_ENTRY_TYPE_def CREATE_BATCH_SELECT_LOCATION_def
  CREATE_BATCH_ENTER_REMARK_def CREATE_BATCH_TOGGLE_PRODUCTS_def CREATE_BATCH_ENTER_PRICE_def
  CREATE_BATCH_CONFIRM_SUBMISSION_def CREATE_SINGLE_SELECT_PRODUCT_def
  CREATE_SINGLE_ENTER_PRICE_def CREATE_SINGLE_SELECT_LOCATION_def
  CREATE_SINGLE_ENTER_REMARK_def CREATE_SINGLE_CONFIRM_SUBMISSION_def UPDATE_ASK_ID_def
  UPDATE_SELECT_FIELDS_TOGGLE_def UPDATE_ENTER_MULTIPLE_VALUES_def UPDATE_CONFIRM_MULTIPLE_def
  DELETE_ASK_ID_def DELETE_CONFIRM_def VIEW_AWAITING_MENU_CHOICE_def
  VIEW_AWAITING_ID_INPUT_def VIEW_PAGINATING_ENTRIES_def MENU_MAIN_DISPLAYED_def
  INSIGHTS_MENU_DISPLAYED_def INSIGHTS_AWAITING_PRODUCT_def INSIGHTS_AWAITING_LOCATION_def

definition CB_MAIN_MENU_PREFIX :: string where "CB_MAIN_MENU_PREFIX = ''menu_nav_''"
definition CB_OPEN_MENU_FROM_START :: string where "CB_OPEN_MENU_FROM_START = ''menu_open_from_start''"
definition CB_CREATE_CHOOSE_TYPE_SINGLE :: string where "CB_CREATE_CHOOSE_TYPE_SINGLE = ''create_choose_single''"
definition CB_CREATE_CHOOSE_TYPE_BATCH :: string where "CB_CREATE_CHOOSE_TYPE_BATCH = ''create_choose_batch''"
definition CB_CREATE_CANCEL_ENTIRE :: string where "CB_CREATE_CANCEL_ENTIRE = ''create_op_cancel_all''"
definition CB_CREATE_BATCH_COMMON_LOCATION_PREFIX :: string where "CB_CREATE_BATCH_COMMON_LOCATION_PREFIX = ''create_b_loc_''"
definition CB_CREATE_BATCH_PRODUCT_TOGGLE_PREFIX :: string where "CB_CREATE_BATCH_PRODUCT_TOGGLE_PREFIX = ''create_b_prod_toggle_''"
definition CB_CREATE_BATCH_PRODUCTS_DONE :: string where "CB_CREATE_BATCH_PRODUCTS_DONE = ''create_b_prod_done''"
definition CB_CREATE_BATCH_SUBMIT_FINAL :: string where "CB_CREATE_BATCH_SUBMIT_FINAL = ''create_b_submit_final''"
definition CB_CREATE_BATCH_CANCEL_CONFIRM :: string where "CB_CREATE_BATCH_CANCEL_CONFIRM = ''create_b_cancel_conf''"
definition CB_CREATE_SINGLE_PRODUCT_PREFIX :: string where "CB_CREATE_SINGLE_PRODUCT_PREFIX = ''create_s_prod_''"
definition CB_CREATE_SINGLE_LOCATION_PREFIX :: string where "CB_CREATE_SINGLE_LOCATION_PREFIX = ''create_s_loc_''"
definition CB_CREATE_SINGLE_SUBMIT_FINAL :: string where "CB_CREATE_SINGLE_SUBMIT_FINAL = ''create_s_submit_final''"
definition CB_CREATE_SINGLE_CANCEL_CONFIRM :: string where "CB_CREATE_SINGLE_CANCEL_CONFIRM = ''create_s_cancel_conf''"
definition CB_UPDATE_FIELD_TOGGLE_PREFIX :: string where "CB_UPDATE_FIELD_TOGGLE_PREFIX = ''update_field_''"
definition CB_UPDATE_PROCEED_WITH_SELECTION :: string where "CB_UPDATE_PROCEED_WITH_SELECTION = ''update_proceed_sel''"
definition CB_UPDATE_CANCEL_FIELD_SELECTION :: string where "CB_UPDATE_CANCEL_FIELD_SELECTION = ''update_cancel_sel''"
definition CB_UPDATE_NEWVAL_PRODUCT_PREFIX :: string where "CB_UPDATE_NEWVAL_PRODUCT_PREFIX = ''update_val_prod_''"
definition CB_UPDATE_NEWVAL_LOCATION_PREFIX :: string where "CB_UPDATE_NEWVAL_LOCATION_PREFIX = ''update_val_loc_''"
definition CB_UPDATE_EXECUTE_CONFIRMED :: string where "CB_UPDATE_EXECUTE_CONFIRMED = ''update_execute_now''"
definition CB_UPDATE_CANCEL_FINAL_CONFIRM :: string where "CB_UPDATE_CANCEL_FINAL_CONFIRM = ''update_cancel_final''"
definition CB_DELETE_CONFIRM_YES :: string where "CB_DELETE_CONFIRM_YES = ''delete_do_yes''"
definition CB_DELETE_CONFIRM_NO :: string where "CB_DELETE_CONFIRM_NO = ''delete_do_no''"
definition CB_VIEW_LAST_N_PREFIX :: string where "CB_VIEW_LAST_N_PREFIX = ''view_last_''"
definition CB_VIEW_BY_ID_PROMPT_ACTION :: string where "CB_VIEW_BY_ID_PROMPT_ACTION = ''view_by_id_ask''"
definition CB_VIEW_CANCEL_ACTION :: string where "CB_VIEW_CANCEL_ACTION = ''view_op_cancel''"
definition CB_VIEW_BACK_TO_MENU_ACTION :: string where "CB_VIEW_BACK_TO_MENU_ACTION = ''view_back_to_main_menu''"
definition CB_INSIGHTS_PREFIX :: string where "CB_INSIGHTS_PREFIX = ''insights_action_''"
definition CB_INSIGHTS_BACK_TO_MAIN :: string where "CB_INSIGHTS_BACK_TO_MAIN = ''insights_back_main''"
definition CB_INSIGHTS_CANCEL :: string where "CB_INSIGHTS_CANCEL = ''insights_op_cancel''"

lemmas cb_defs = CB_MAIN_MENU_PREFIX_def CB_OPEN_MENU_FROM_START_def
  CB_CREATE_CHOOSE_TYPE_SINGLE_def CB_CREATE_CHOOSE_TYPE_BATCH_def CB_CREATE_CANCEL_ENTIRE_def
  CB_CREATE_BATCH_COMMON_LOCATION_PREFIX_def CB_CREATE_BATCH_PRODUCT_TOGGLE_PREFIX_def
  CB_CREATE_BATCH_PRODUCTS_DONE_def CB_CREATE_BATCH_SUBMIT_FINAL_def
  CB_CREATE_BATCH_CANCEL_CONFIRM_def CB_CREATE_SINGLE_PRODUCT_PREFIX_def
  CB_CREATE_SINGLE_LOCATION_PREFIX_def CB_CREATE_SINGLE_SUBMIT_FINAL_def
  CB_CREATE_SINGLE_CANCEL_CONFIRM_def CB_UPDATE_FIELD_TOGGLE_PREFIX_def
  CB_UPDATE_PROCEED_WITH_SELECTION_def CB_UPDATE_CANCEL_FIELD_SELECTION_def
  CB_UPDATE_NEWVAL_PRODUCT_PREFIX_def CB_UPDATE_NEWVAL_LOCATION_PREFIX_def
  CB_UPDATE_EXECUTE_CONFIRMED_def CB_UPDATE_CANCEL_FINAL_CONFIRM_def CB_DELETE_CONFIRM_YES_def
  CB_DELETE_CONFIRM_NO_def CB_VIEW_LAST_N_PREFIX_def CB_VIEW_BY_ID_PROMPT_ACTION_def
  CB_VIEW_CANCEL_ACTION_def CB_VIEW_BACK_TO_MENU_ACTION_def CB_INSIGHTS_PREFIX_def
  CB_INSIGHTS_BACK_TO_MAIN_def CB_INSIGHTS_CANCEL_def

definition DEFAULT_ENTRIES_PER_PAGE_VIEW :: nat where "DEFAULT_ENTRIES_PER_PAGE_VIEW = 5"

section \<open>The environment, the transport and the session\<close>

text \<open>
  What a handler reads from outside the program: the clock, the id generator, Python's
  \<open>float\<close> and \<open>str\<close> on floats, and whether the remote call of the spreadsheet
  library succeeds.
\<close>

record env =
  now :: nat  \<comment> \<open>the reading of \<open>datetime.now()\<close>\<close>
  isoformat :: "nat \<Rightarrow> string"
  uuid4 :: "nat \<Rightarrow> string"  \<comment> \<open>\<open>str(uuid.uuid4())\<close> of the i-th call of this invocation\<close>
  float_of_str :: "string \<Rightarrow> rat option"  \<comment> \<open>\<open>float(s)\<close>; \<open>None\<close> is the \<open>ValueError\<close>\<close>
  str_of_float :: "rat \<Rightarrow> string"
  api_raises :: bool  \<comment> \<open>the remote call of this invocation raises\<close>
  api_response :: bool  \<comment> \<open>truth value of what \<open>worksheet.batch_update\<close> returns\<close>

definition py_str :: "env \<Rightarrow> pyval \<Rightarrow> string" where
  "py_str e v = (case v of VNone \<Rightarrow> ''None'' | VStr s \<Rightarrow> s | VInt i \<Rightarrow> str_of_int i
                 | VFloat q \<Rightarrow> str_of_float e q)"

text \<open>An inbound update is a typed message or a button press; a handler's renders are
  collected in the order it makes them.  A text is its template with the interpolated
  values; emoji are left out of the templates.\<close>

datatype event = TextMessage string | ButtonPress string

record tg_user =
  username :: "string option"
  user_id :: int
  first_name :: string

record tg_update =
  event :: event
  from_user :: tg_user

datatype msg = Msg string "pyval list"

type_synonym button = "string \<times> string"  \<comment> \<open>label and callback data\<close>

datatype markup = NoMarkup | InlineKeyboardMarkup "button list list"

datatype out =
    Answer "string option" bool  \<comment> \<open>\<open>query.answer(text, show_alert)\<close>\<close>
  | EditMessageText msg markup
  | ReplyText msg markup

text \<open>\<open>context.user_data\<close>: one optional entry for each key the handlers use.\<close>

record session =
  current_entry :: "pyval dict option"
  batch_entries :: "pyval dict list option"
  batch_selected_products :: "string list option"
  batch_common_location :: "string option"
  batch_common_remark :: "string option"
  batch_price_queue :: "string list option"
  batch_current_product_for_price :: "string option"
  update_entry_id :: "string option"
  update_row_num :: "nat option"
  update_original_data :: "string dict option"
  fields_to_update_selected_keys :: "string list option"
  new_values_for_update_map :: "pyval dict option"
  update_fields_queue :: "string list option"
  current_field_being_updated_key :: "string option"
  delete_entry_id :: "string option"
  delete_row_num :: "nat option"

definition user_data_clear :: session where
  "user_data_clear =
     \<lparr>current_entry = None, batch_entries = None, batch_selected_products = None,
      batch_common_location = None, batch_common_remark = None, batch_price_queue = None,
      batch_current_product_for_price = None, update_entry_id = None, update_row_num = None,
      update_original_data = None, fields_to_update_selected_keys = None,
      new_values_for_update_map = None, update_fields_queue = None,
      current_field_being_updated_key = None, delete_entry_id = None, delete_row_num = None\<rparr>"

text \<open>The spreadsheet: a grid of cells, row 1 the header row, with the text the sheet
  shows for a value.  The module globals of \<open>gsheet_utils\<close> are set once at start-up.\<close>

record gspread_worksheet =
  cells :: "pyval list list"
  display :: "pyval \<Rightarrow> string"

record gsheet =
  GSHEET_CONNECTED :: bool
  worksheet :: "gspread_worksheet option"
  HEADERS :: "string list"

record world =
  user_data :: session
  gs :: gsheet
  sent :: "out list"

type_synonym result = "(py_error \<times> world) + (int \<times> world)"
  \<comment> \<open>\<open>Inl\<close>: the exception that leaves the handler, with the world at that moment;
      \<open>Inr\<close>: the returned state\<close>

type_synonym handler = "env \<Rightarrow> tg_update \<Rightarrow> world \<Rightarrow> result"

definition say :: "out \<Rightarrow> world \<Rightarrow> world" where
  "say x w = w\<lparr>sent := sent w @ [x]\<rparr>"

definition set_ud :: "session \<Rightarrow> world \<Rightarrow> world" where
  "set_ud ud w = w\<lparr>user_data := ud\<rparr>"

definition user_identifier :: "tg_update \<Rightarrow> string" where
  \<comment> \<open>\<open>query.from_user.username if query.from_user.username else str(query.from_user.id)\<close>\<close>
  "user_identifier upd =
     (case username (from_user upd) of
        Some n \<Rightarrow> (if n \<noteq> [] then n else str_of_int (user_id (from_user upd)))
      | None \<Rightarrow> str_of_int (user_id (from_user upd)))"

section \<open>keyboards.py\<close>

definition clean_and_format_for_display :: "string \<Rightarrow> string" where
  "clean_and_format_for_display raw_string = py_title (py_replace ''_'' '' '' raw_string)"

definition build_post_action_keyboard :: markup where
  "build_post_action_keyboard =
     InlineKeyboardMarkup [[(''New Entry'', CB_MAIN_MENU_PREFIX @ ''new''),
                            (''Main Menu'', CB_MAIN_MENU_PREFIX @ ''menu'')]]"

definition item_slug :: "string \<Rightarrow> string" where
  \<comment> \<open>\<open>str(item_text).replace(" ", "_").lower()\<close>\<close>
  "item_slug item_text = py_lower (py_replace '' '' ''_'' item_text)"

definition build_keyboard :: "string list \<Rightarrow> string \<Rightarrow> markup" where
  \<comment> \<open>called with the defaults only: one item in a row, the suffix taken from the item\<close>
  "build_keyboard items pfx =
     InlineKeyboardMarkup (map (\<lambda>item_text. [(item_text, pfx @ item_slug item_text)]) items)"

definition escape_chars :: string where
  "escape_chars = [CHR ''_'', CHR ''*'', CHR ''['', CHR '']'', CHR ''('', CHR '')'', CHR ''~'',
                   CHR 0x60, CHR ''>'', CHR ''#'', CHR ''+'', CHR ''-'', CHR ''='', CHR ''|'',
                   CHR ''{'', CHR ''}'', CHR ''.'', CHR ''!'']"

definition escape_markdown_v2 :: "string \<Rightarrow> string" where
  \<comment> \<open>the four copies \<open>_escape_markdown...\<close> of the modules are the same function\<close>
  "escape_markdown_v2 s = concat (map (\<lambda>c. if c \<in> set escape_chars then [CHR 0x5C, c] else [c]) s)"

definition format_entry_details_markdown :: "string dict \<Rightarrow> string \<Rightarrow> string" where
  "format_entry_details_markdown entry_data_dict title =
     py_join [CHR 0x0A]
       ((if title \<noteq> [] then [''*'' @ escape_markdown_v2 title @ '':*''] else []) @
        map (\<lambda>(header_key, v).
               ''  *'' @ escape_markdown_v2 (clean_and_format_for_display header_key) @ '':* '' @
               [CHR 0x60] @ escape_markdown_v2 v @ [CHR 0x60])
            entry_data_dict)"

section \<open>gsheet\_utils.py\<close>

definition keep_char :: "char \<Rightarrow> bool" where
  \<comment> \<open>the characters that \<open>[^a-zA-Z0-9\s]\<close> does not match\<close>
  "keep_char c = (is_lower c \<or> is_upper c \<or> is_digit c \<or> is_space c)"

definition clean_and_capitalize_text :: "env \<Rightarrow> pyval \<Rightarrow> string" where
  "clean_and_capitalize_text e v =
     (let text = py_str e v;
          cleaned_text = filter keep_char text;
          capitalized_text = py_title cleaned_text
      in py_join '' '' (py_split capitalized_text))"

text \<open>The methods of the library's worksheet object that the program calls.\<close>

definition column_texts :: "gspread_worksheet \<Rightarrow> nat \<Rightarrow> string list" where
  "column_texts ws col =
     map (\<lambda>row. if col \<le> length row then display ws (row ! (col - 1)) else []) (cells ws)"

definition ws_find :: "gspread_worksheet \<Rightarrow> string \<Rightarrow> nat \<Rightarrow> nat option" where
  \<comment> \<open>\<open>worksheet.find(query, in_column=col)\<close>: the row of the first matching cell\<close>
  "ws_find ws query col = map_option Suc (py_index (column_texts ws col) query)"

definition ws_row_values :: "gspread_worksheet \<Rightarrow> nat \<Rightarrow> string list" where
  "ws_row_values ws r = (if r \<le> length (cells ws) then map (display ws) (cells ws ! (r - 1)) else [])"

definition ws_get_all_values :: "gspread_worksheet \<Rightarrow> string list list" where
  "ws_get_all_values ws = map (map (display ws)) (cells ws)"

definition ws_get_all_records :: "gspread_worksheet \<Rightarrow> pyval dict list" where
  "ws_get_all_records ws =
     (case cells ws of [] \<Rightarrow> []
      | header # rows \<Rightarrow> map (\<lambda>row. dict_of_pairs (zip (map (display ws) header) row)) rows)"

definition ws_append_rows :: "pyval list list \<Rightarrow> gspread_worksheet \<Rightarrow> gspread_worksheet" where
  "ws_append_rows rows ws = ws\<lparr>cells := cells ws @ rows\<rparr>"

definition ws_delete_rows :: "nat \<Rightarrow> gspread_worksheet \<Rightarrow> gspread_worksheet" where
  "ws_delete_rows r ws = ws\<lparr>cells := take (r - 1) (cells ws) @ drop r (cells ws)\<rparr>"

definition pad_to :: "nat \<Rightarrow> 'a \<Rightarrow> 'a list \<Rightarrow> 'a list" where
  "pad_to n x xs = xs @ replicate (n - length xs) x"

definition set_cell :: "nat \<Rightarrow> nat \<Rightarrow> pyval \<Rightarrow> pyval list list \<Rightarrow> pyval list list" where
  \<comment> \<open>writing the cell in row \<open>r\<close>, column \<open>c\<close> (both from 1); the grid grows where needed\<close>
  "set_cell r c v g =
     (let g' = pad_to r [] g; row = pad_to c (VStr []) (g' ! (r - 1))
      in g'[r - 1 := row[c - 1 := v]])"

definition ws_batch_update :: "(nat \<times> nat \<times> pyval) list \<Rightarrow> gspread_worksheet \<Rightarrow> gspread_worksheet" where
  \<comment> \<open>an operation names its cell by row and column, as \<open>rowcol_to_a1\<close> encodes them\<close>
  "ws_batch_update ops ws = ws\<lparr>cells := foldl (\<lambda>g (r, c, v). set_cell r c v g) (cells ws) ops\<rparr>"

definition find_row_by_id :: "env \<Rightarrow> gsheet \<Rightarrow> string \<Rightarrow> (nat \<times> string list) option" where
  \<comment> \<open>\<open>None\<close> is the pair \<open>(None, None)\<close>\<close>
  "find_row_by_id e g entry_id_to_find =
     (case worksheet g of
        None \<Rightarrow> None
      | Some ws \<Rightarrow>
          if \<not> GSHEET_CONNECTED g \<or> HEADERS g = [] then None
          else if entry_id_to_find = [] then None
          else (case py_index (HEADERS g) ID_FIELD of
                  None \<Rightarrow> None
                | Some i \<Rightarrow>
                    if api_raises e then None
                    else (case ws_find ws entry_id_to_find (i + 1) of
                            None \<Rightarrow> None
                          | Some r \<Rightarrow> Some (r, ws_row_values ws r))))"

definition append_rows_to_sheet :: "env \<Rightarrow> pyval list list \<Rightarrow> gsheet \<Rightarrow> bool \<times> gsheet" where
  "append_rows_to_sheet e rows_data g =
     (case worksheet g of
        None \<Rightarrow> (False, g)
      | Some ws \<Rightarrow>
          if \<not> GSHEET_CONNECTED g then (False, g)
          else if rows_data = [] then (True, g)
          else if api_raises e then (False, g)
          else (True, g\<lparr>worksheet := Some (ws_append_rows rows_data ws)\<rparr>))"


definition delete_row_from_sheet :: "env \<Rightarrow> nat \<Rightarrow> gsheet \<Rightarrow> bool \<times> gsheet" where
  "delete_row_from_sheet e row_number g =
     (case worksheet g of
        None \<Rightarrow> (False, g)
      | Some ws \<Rightarrow>
          if \<not> GSHEET_CONNECTED g then (False, g)
          else if api_raises e then (False, g)
          else (True, g\<lparr>worksheet := Some (ws_delete_rows row_number ws)\<rparr>))"

subsection \<open>Data retrieval and processing for insights\<close>

record insight =
  item_product :: string  \<comment> \<open>the entry \<open>'product'\<close> of the dictionary\<close>
  item_location :: string  \<comment> \<open>\<open>'location'\<close>\<close>
  item_price :: rat  \<comment> \<open>\<open>'price'\<close>\<close>

definition get_or_none :: "pyval dict \<Rightarrow> string \<Rightarrow> pyval" where
  \<comment> \<open>\<open>d.get(k)\<close>\<close>
  "get_or_none d k = (case dict_get d k of None \<Rightarrow> VNone | Some v \<Rightarrow> v)"

definition process_record :: "env \<Rightarrow> pyval dict \<Rightarrow> insight option" where
  \<comment> \<open>the body of the loop over the records; \<open>None\<close> is \<open>continue\<close>\<close>
  "process_record e record_dict =
     (let product = get_or_none record_dict PRODUCT_FIELD;
          location = get_or_none record_dict LOCATION_FIELD;
          price_raw = get_or_none record_dict PRICE_FIELD
      in if \<not> truthy product \<or> \<not> truthy location \<or> price_raw = VNone then None
         else (case float_of_str e (py_replace '','' [] (py_strip (py_str e price_raw))) of
                 None \<Rightarrow> None
               | Some price_float \<Rightarrow>
                   if price_float \<le> 0 then None
                   else Some \<lparr>item_product = clean_and_capitalize_text e product,
                              item_location = clean_and_capitalize_text e location,
                              item_price = price_float\<rparr>))"

definition get_all_data_for_insights :: "env \<Rightarrow> gsheet \<Rightarrow> insight list" where
  "get_all_data_for_insights e g =
     (case worksheet g of
        None \<Rightarrow> []
      | Some ws \<Rightarrow>
          if \<not> GSHEET_CONNECTED g \<or> HEADERS g = [] then []
          else if \<not> list_all (\<lambda>h. h \<in> set (HEADERS g)) [PRODUCT_FIELD, PRICE_FIELD, LOCATION_FIELD]
          then []
          else if api_raises e then []
          else List.map_filter (process_record e) (ws_get_all_records ws))"

datatype group_by = GroupBy string | GroupByTuple "string list"

datatype group_key = Key string | KeyTuple "string list"

record group_stats =
  total_price :: rat
  count :: nat
  average :: rat

definition item_get :: "env \<Rightarrow> insight \<Rightarrow> string \<Rightarrow> string" where
  \<comment> \<open>\<open>str(item_data.get(key, "N/A")).strip()\<close>\<close>
  "item_get e item_data k =
     py_strip (if k = ''product'' then item_product item_data
               else if k = ''location'' then item_location item_data
               else if k = ''price'' then str_of_float e (item_price item_data)
               else ''N/A'')"

definition composite_key :: "env \<Rightarrow> group_by \<Rightarrow> insight \<Rightarrow> group_key" where
  "composite_key e group_by_key item_data =
     (case group_by_key of
        GroupByTuple ks \<Rightarrow> KeyTuple (map (item_get e item_data) ks)
      | GroupBy k \<Rightarrow> Key (item_get e item_data k))"

fun accumulate :: "group_key \<Rightarrow> rat \<Rightarrow> (group_key \<times> rat \<times> nat) list \<Rightarrow> (group_key \<times> rat \<times> nat) list" where
  "accumulate k p [] = [(k, 0 + p, 0 + 1)]"
| "accumulate k p ((k', t, c) # acc) =
     (if k' = k then (k', t + p, c + 1) # acc else (k', t, c) # accumulate k p acc)"

definition calculate_average_prices ::
    "env \<Rightarrow> insight list \<Rightarrow> group_by \<Rightarrow> (group_key \<times> group_stats) list" where
  "calculate_average_prices e insights_data group_by_key =
     (if insights_data = [] then []
      else
        (let averages_accumulator =
               foldl (\<lambda>acc item_data.
                        accumulate (composite_key e group_by_key item_data) (item_price item_data) acc)
                     [] insights_data
         in map (\<lambda>(k, t, c). (k, \<lparr>total_price = t, count = c, average = py_round2 (t / of_nat c)\<rparr>))
              (filter (\<lambda>(k, t, c). 0 < c) averages_accumulator)))"

section \<open>Handlers\<close>

definition ret :: "int \<Rightarrow> world \<Rightarrow> result" where
  "ret s w = Inr (s, w)"

definition raise :: "py_error \<Rightarrow> world \<Rightarrow> result" where
  "raise x w = Inl (x, w)"

definition callback_data :: "tg_update \<Rightarrow> string option" where
  \<comment> \<open>\<open>update.callback_query.data\<close>; \<open>None\<close> when the update carries no callback query\<close>
  "callback_data upd = (case event upd of ButtonPress d \<Rightarrow> Some d | TextMessage t \<Rightarrow> None)"

definition message_text :: "tg_update \<Rightarrow> string option" where
  \<comment> \<open>\<open>update.message.text\<close>; \<open>None\<close> when the update carries no message\<close>
  "message_text upd = (case event upd of TextMessage t \<Rightarrow> Some t | ButtonPress d \<Rightarrow> None)"

definition send_or_edit :: "tg_update \<Rightarrow> msg \<Rightarrow> markup \<Rightarrow> world \<Rightarrow> world" where
  \<comment> \<open>\<open>_send_or_edit\<close> and its copies in the other modules\<close>
  "send_or_edit upd txt reply_markup w =
     (case event upd of
        ButtonPress d \<Rightarrow> say (EditMessageText txt reply_markup) w
      | TextMessage t \<Rightarrow> say (ReplyText txt reply_markup) w)"

definition positive_float :: "env \<Rightarrow> string \<Rightarrow> rat option" where
  \<comment> \<open>\<open>price = float(text); if price <= 0: raise ValueError\<close>, inside
      \<open>try ... except (ValueError, TypeError)\<close>; \<open>None\<close> is the \<open>except\<close> branch\<close>
  "positive_float e t =
     (case float_of_str e t of None \<Rightarrow> None | Some p \<Rightarrow> if p \<le> 0 then None else Some p)"

subsection \<open>handlers/menu.py\<close>

definition main_menu_command_simple :: "tg_update \<Rightarrow> world \<Rightarrow> world" where
  "main_menu_command_simple upd w =
     (let reply_markup = InlineKeyboardMarkup
            [[(''New Entry'', CB_MAIN_MENU_PREFIX @ ''new'')],
             [(''Update Entry'', CB_MAIN_MENU_PREFIX @ ''update'')],
             [(''Delete Entry'', CB_MAIN_MENU_PREFIX @ ''delete'')],
             [(''View Entries'', CB_MAIN_MENU_PREFIX @ ''view'')],
             [(''Price Insights'', CB_MAIN_MENU_PREFIX @ ''insights'')]];
          message_text = Msg ''Welcome! Select an option:'' []
      in case event upd of
           ButtonPress d \<Rightarrow> say (EditMessageText message_text reply_markup) (say (Answer None False) w)
         | TextMessage t \<Rightarrow> say (ReplyText message_text reply_markup) w)"

subsection \<open>common\_handlers.py: cancel\<close>

definition cancel_conversation :: handler where
  "cancel_conversation e upd w =
     (let text_to_send = Msg ''Operation canceled. What would you like to do next?'' [];
          reply_markup = build_post_action_keyboard;
          w1 = (case event upd of
                  ButtonPress d \<Rightarrow>
                    say (EditMessageText text_to_send reply_markup) (say (Answer None False) w)
                | TextMessage t \<Rightarrow> say (ReplyText text_to_send reply_markup) w)
      in ret END (set_ud user_data_clear w1))"

subsection \<open>handlers/create.py\<close>

definition get_current_entry_data :: "session \<Rightarrow> pyval dict \<times> session" where
  \<comment> \<open>\<open>_get_current_entry_data\<close>: the dictionary, created when it is missing\<close>
  "get_current_entry_data ud =
     (case current_entry ud of
        None \<Rightarrow> ([], ud\<lparr>current_entry := Some []\<rparr>)
      | Some d \<Rightarrow> (d, ud))"

definition clear_current_entry_data :: "session \<Rightarrow> session" where
  "clear_current_entry_data ud = ud\<lparr>current_entry := None\<rparr>"

definition start_new_entry :: handler where
  "start_new_entry e upd w =
     (let w1 = set_ud user_data_clear w;
          reply_markup = InlineKeyboardMarkup
            [[(''Add Single Product'', CB_CREATE_CHOOSE_TYPE_SINGLE)],
             [(''Add Batch of Products'', CB_CREATE_CHOOSE_TYPE_BATCH)],
             [(''Cancel'', CB_CREATE_CANCEL_ENTIRE)]]
      in ret CREATE_CHOOSE_ENTRY_TYPE
           (send_or_edit upd (Msg ''How would you like to add new data?'' []) reply_markup w1))"

text \<open>The batch flow.\<close>

definition ask_batch_common_location :: handler where
  "ask_batch_common_location e upd w =
     ret CREATE_BATCH_SELECT_LOCATION
       (send_or_edit upd
          (Msg ''--- Batch Entry ---\<newline>Please select a common LOCATION for this batch:'' [])
          (build_keyboard LOCATIONS CB_CREATE_BATCH_COMMON_LOCATION_PREFIX) w)"

definition batch_common_location_selection :: handler where
  "batch_common_location_selection e upd w =
     (case callback_data upd of
        None \<Rightarrow> raise AttributeError w
      | Some d \<Rightarrow>
          (let w1 = say (Answer None False) w;
               raw_location_slug = py_replace CB_CREATE_BATCH_COMMON_LOCATION_PREFIX [] d;
               selected_location = clean_and_format_for_display raw_location_slug;
               w2 = set_ud ((user_data w1)\<lparr>batch_common_location := Some selected_location\<rparr>) w1
           in ret CREATE_BATCH_ENTER_REMARK
                (say (EditMessageText
                        (Msg ''Batch Location: {}\<newline>\<newline>Now, please enter common remarks for this batch, or use /skip_remark_batch.''
                           [VStr selected_location]) NoMarkup) w2)))"

fun in_pairs :: "'a list \<Rightarrow> 'a list list" where
  \<comment> \<open>\<open>[buttons[i:i + 2] for i in range(0, len(buttons), 2)]\<close>\<close>
  "in_pairs (x # y # zs) = [x, y] # in_pairs zs"
| "in_pairs [x] = [[x]]"
| "in_pairs [] = []"

definition ask_batch_products_selection :: handler where
  "ask_batch_products_selection e upd w =
     (let selected_products =
            (case batch_selected_products (user_data w) of None \<Rightarrow> [] | Some xs \<Rightarrow> xs);
          w1 = set_ud ((user_data w)\<lparr>batch_selected_products := Some selected_products\<rparr>) w;
          buttons = map (\<lambda>product.
                           ((if product \<in> set selected_products then ''[x] '' else ''[ ] '') @ product,
                            CB_CREATE_BATCH_PRODUCT_TOGGLE_PREFIX @ item_slug product))
                        PRODUCTS;
          keyboard_rows = in_pairs buttons @
                          [[(''Done Selecting Products'', CB_CREATE_BATCH_PRODUCTS_DONE)]];
          num_selected = length selected_products
      in case batch_common_location (user_data w1) of
           None \<Rightarrow> raise KeyError w1
         | Some loc \<Rightarrow>
             ret CREATE_BATCH_TOGGLE_PRODUCTS
               (send_or_edit upd
                  (Msg ''--- Batch Product Selection ---\<newline>Location: {}\<newline>\<newline>Select all products for this batch. You have selected {} product(s).\<newline>Click 'Done' when you are finished.''
                     [VStr loc, VInt (int num_selected)])
                  (InlineKeyboardMarkup keyboard_rows) w1))"

definition batch_common_remark_entry :: handler where
  "batch_common_remark_entry e upd w =
     (case message_text upd of
        None \<Rightarrow> raise AttributeError w
      | Some t \<Rightarrow>
          (let w1 = set_ud ((user_data w)\<lparr>batch_common_remark := Some t\<rparr>) w;
               w2 = say (ReplyText (Msg ''Batch Remark set.'' []) NoMarkup) w1
           in ask_batch_products_selection e upd w2))"

definition batch_skip_common_remark :: handler where
  "batch_skip_common_remark e upd w =
     (let w1 = set_ud ((user_data w)\<lparr>batch_common_remark := Some []\<rparr>) w
      in case message_text upd of
           None \<Rightarrow> raise AttributeError w1
         | Some t \<Rightarrow>
             ask_batch_products_selection e upd
               (say (ReplyText (Msg ''Batch Remark skipped.'' []) NoMarkup) w1))"

definition toggle :: "'a \<Rightarrow> 'a list \<Rightarrow> 'a list" where
  \<comment> \<open>\<open>if x in xs: xs.remove(x)\<close>, \<open>else: xs.append(x)\<close>\<close>
  "toggle x xs = (if x \<in> set xs then remove1 x xs else xs @ [x])"

definition toggle_batch_product_selection :: handler where
  "toggle_batch_product_selection e upd w =
     (case callback_data upd of
        None \<Rightarrow> raise AttributeError w
      | Some d \<Rightarrow>
          (let w1 = say (Answer None False) w;
               raw_product_slug = py_replace CB_CREATE_BATCH_PRODUCT_TOGGLE_PREFIX [] d;
               product_name = clean_and_format_for_display raw_product_slug;
               selected_products =
                 (case batch_selected_products (user_data w1) of None \<Rightarrow> [] | Some xs \<Rightarrow> xs);
               w2 = set_ud ((user_data w1)\<lparr>batch_selected_products :=
                              Some (toggle product_name selected_products)\<rparr>) w1
           in ask_batch_products_selection e upd w2))"

definition show_batch_confirmation :: handler where
  "show_batch_confirmation e upd w =
     (let batch_entries = (case batch_entries (user_data w) of None \<Rightarrow> [] | Some xs \<Rightarrow> xs)
      in if batch_entries = []
         then cancel_conversation e upd
                (send_or_edit upd (Msg ''No entries were created. Operation canceled.'' []) NoMarkup w)
         else (case batch_common_location (user_data w) of
                 None \<Rightarrow> raise KeyError w
               | Some loc \<Rightarrow>
                   (let remark = (case batch_common_remark (user_data w) of
                                    None \<Rightarrow> ''None''
                                  | Some r \<Rightarrow> if r = [] then ''None'' else r);
                        summary_parts =
                          [''--- Confirm Batch Submission ---'', ''**Location:** {}'',
                           ''**Remark:** {}\<newline>'', ''**Products & Prices:**''] @
                          map (\<lambda>i. str_of_nat (i + 1) @ ''. {}: **{}**'') [0 ..< length batch_entries] @
                          [''\<newline>Submit this batch to the sheet?''];
                        args = [VStr loc, VStr remark] @
                               concat (map (\<lambda>entry. [get_or_none entry ''product'',
                                                      get_or_none entry ''price'']) batch_entries);
                        keyboard = InlineKeyboardMarkup
                          [[(''Yes, Submit Batch'', CB_CREATE_BATCH_SUBMIT_FINAL)],
                           [(''No, Cancel'', CB_CREATE_BATCH_CANCEL_CONFIRM)]]
                    in ret CREATE_BATCH_CONFIRM_SUBMISSION
                         (send_or_edit upd (Msg (py_join ''\<newline>'' summary_parts) args) keyboard w))))"

definition ask_next_price_for_batch :: handler where
  "ask_next_price_for_batch e upd w =
     (let price_queue = (case batch_price_queue (user_data w) of None \<Rightarrow> [] | Some xs \<Rightarrow> xs)
      in case price_queue of
           [] \<Rightarrow> show_batch_confirmation e upd w
         | current_product # rest \<Rightarrow>
             (let w1 = set_ud ((user_data w)\<lparr>batch_current_product_for_price :=
                                 Some current_product\<rparr>) w
              in ret CREATE_BATCH_ENTER_PRICE
                   (send_or_edit upd (Msg ''Please enter the buying price for: *{}*''
                                        [VStr current_product]) NoMarkup w1)))"

definition batch_products_selection_done :: handler where
  "batch_products_selection_done e upd w =
     (let selected_products =
            (case batch_selected_products (user_data w) of None \<Rightarrow> [] | Some xs \<Rightarrow> xs)
      in if selected_products = []
         then (case callback_data upd of
                 None \<Rightarrow> raise AttributeError w
               | Some d \<Rightarrow>
                   ret CREATE_BATCH_TOGGLE_PRODUCTS
                     (say (Answer (Some ''Please select at least one product before proceeding.'')
                             True) w))
         else ask_next_price_for_batch e upd
                (set_ud ((user_data w)\<lparr>batch_price_queue := Some selected_products,
                                        batch_entries := Some []\<rparr>) w))"

definition batch_price_entry :: handler where
  "batch_price_entry e upd w =
     (case message_text upd of
        None \<Rightarrow> raise AttributeError w
      | Some t \<Rightarrow>
          (case positive_float e t of
             None \<Rightarrow>
               ret CREATE_BATCH_ENTER_PRICE
                 (say (ReplyText (Msg ''Invalid price. Please enter a positive number (e.g., 120.50):'' [])
                         NoMarkup) w)
           | Some price \<Rightarrow>
               (let product_name = batch_current_product_for_price (user_data w);
                    w1 = set_ud ((user_data w)\<lparr>batch_current_product_for_price := None\<rparr>) w
                in if product_name = None \<or> product_name = Some []
                   then cancel_conversation e upd
                          (say (ReplyText (Msg ''An error occurred. Please start over.'' []) NoMarkup) w1)
                   else
                     (let w2 = set_ud ((user_data w1)\<lparr>batch_price_queue :=
                                         map_option (\<lambda>q. if q = [] then q else tl q)
                                           (batch_price_queue (user_data w1))\<rparr>) w1
                      in case batch_common_location (user_data w2) of
                           None \<Rightarrow> raise KeyError w2
                         | Some loc \<Rightarrow>
                             (let entry_data =
                                    [(''product'', VStr (the product_name)),
                                     (''price'', VFloat price),
                                     (''location'', VStr loc),
                                     (''remark'', VStr (case batch_common_remark (user_data w2) of
                                                         None \<Rightarrow> [] | Some r \<Rightarrow> r))]
                              in case batch_entries (user_data w2) of
                                   None \<Rightarrow> raise KeyError w2
                                 | Some entries \<Rightarrow>
                                     ask_next_price_for_batch e upd
                                       (set_ud ((user_data w2)\<lparr>batch_entries :=
                                                  Some (entries @ [entry_data])\<rparr>) w2))))))"

definition row_of :: "gsheet \<Rightarrow> pyval dict \<Rightarrow> pyval list" where
  \<comment> \<open>\<open>[row_data.get(h, "") for h in gsheet_utils.HEADERS]\<close>\<close>
  "row_of g row_data =
     map (\<lambda>h. case dict_get row_data h of None \<Rightarrow> VStr [] | Some v \<Rightarrow> v) (HEADERS g)"

definition submit_batch_data :: handler where
  "submit_batch_data e upd w =
     (case callback_data upd of
        None \<Rightarrow> raise AttributeError w
      | Some d \<Rightarrow>
          (let w1 = say (EditMessageText
                           (Msg ''Submitting batch entries... This may take a moment.'' []) NoMarkup)
                      (say (Answer None False) w);
               batch_entries_data =
                 (case batch_entries (user_data w1) of None \<Rightarrow> [] | Some xs \<Rightarrow> xs);
               rows_to_append =
                 map (\<lambda>(i, item).
                        row_of (gs w1)
                          (dict_of_pairs
                             [(ID_FIELD, VStr (uuid4 e i)),
                              (TIMESTAMP_FIELD, VStr (isoformat e (now e))),
                              (EMAIL_FIELD, VStr (user_identifier upd)),
                              (PRODUCT_FIELD, get_or_none item ''product''),
                              (PRICE_FIELD, get_or_none item ''price''),
                              (LOCATION_FIELD, get_or_none item ''location''),
                              (REMARK_FIELD, get_or_none item ''remark'')]))
                     (zip [0 ..< length batch_entries_data] batch_entries_data);
               (success, g') = append_rows_to_sheet e rows_to_append (gs w1);
               w2 = w1\<lparr>gs := g'\<rparr>;
               final_message =
                 (if success
                  then Msg ''Batch with {} entries submitted successfully.\<newline>\<newline>What would you like to do next?''
                         [VInt (int (length rows_to_append))]
                  else Msg ''Batch submission failed. Please contact an admin.\<newline>\<newline>What would you like to do next?'' []);
               w3 = say (EditMessageText final_message build_post_action_keyboard) w2
           in ret END (set_ud user_data_clear w3)))"

text \<open>The single-entry flow.\<close>

definition ask_single_entry_product :: handler where
  "ask_single_entry_product e upd w =
     (let w1 = set_ud (clear_current_entry_data (user_data w)) w
      in ret CREATE_SINGLE_SELECT_PRODUCT
           (send_or_edit upd
              (Msg ''--- Single Product Entry ---\<newline>Please select the Product:'' [])
              (build_keyboard PRODUCTS CB_CREATE_SINGLE_PRODUCT_PREFIX) w1))"

definition single_entry_product_selection :: handler where
  "single_entry_product_selection e upd w =
     (case callback_data upd of
        None \<Rightarrow> raise AttributeError w
      | Some d \<Rightarrow>
          (let w1 = say (Answer None False) w;
               raw_product_slug = py_replace CB_CREATE_SINGLE_PRODUCT_PREFIX [] d;
               selected_product = clean_and_format_for_display raw_product_slug;
               (current_entry, ud1) = get_current_entry_data (user_data w1);
               w2 = set_ud (ud1\<lparr>current_entry :=
                              Some (dict_set ''product'' (VStr selected_product) current_entry)\<rparr>) w1
           in ret CREATE_SINGLE_ENTER_PRICE
                (say (EditMessageText
                        (Msg ''Product: {}\<newline>\<newline>Please enter the buying price (e.g., 120.50):''
                           [VStr selected_product]) NoMarkup) w2)))"

definition single_entry_price_entry :: handler where
  "single_entry_price_entry e upd w =
     (case message_text upd of
        None \<Rightarrow> raise AttributeError w
      | Some price_text \<Rightarrow>
          (let (current_entry, ud1) = get_current_entry_data (user_data w);
               w1 = set_ud ud1 w
           in case positive_float e price_text of
                None \<Rightarrow>
                  ret CREATE_SINGLE_ENTER_PRICE
                    (say (ReplyText (Msg ''Invalid price. Please enter a positive number:'' [])
                            NoMarkup) w1)
              | Some price \<Rightarrow>
                  (let current_entry' = dict_set ''price'' (VFloat price) current_entry;
                       w2 = set_ud (ud1\<lparr>current_entry := Some current_entry'\<rparr>) w1
                   in case dict_get current_entry' ''product'' of
                        None \<Rightarrow> raise KeyError w2
                      | Some p \<Rightarrow>
                          ret CREATE_SINGLE_SELECT_LOCATION
                            (say (ReplyText
                                    (Msg ''Product: {}\<newline>Price: {}\<newline>\<newline>Please select the Location:''
                                       [p, VFloat price])
                                    (build_keyboard LOCATIONS CB_CREATE_SINGLE_LOCATION_PREFIX))
                               w2))))"

definition single_entry_location_selection :: handler where
  "single_entry_location_selection e upd w =
     (case callback_data upd of
        None \<Rightarrow> raise AttributeError w
      | Some d \<Rightarrow>
          (let w1 = say (Answer None False) w;
               raw_location_slug = py_replace CB_CREATE_SINGLE_LOCATION_PREFIX [] d;
               selected_location = clean_and_format_for_display raw_location_slug;
               (current_entry, ud1) = get_current_entry_data (user_data w1);
               current_entry' = dict_set ''location'' (VStr selected_location) current_entry;
               w2 = set_ud (ud1\<lparr>current_entry := Some current_entry'\<rparr>) w1
           in case (dict_get current_entry' ''product'', dict_get current_entry' ''price'') of
                (Some p, Some pr) \<Rightarrow>
                  ret CREATE_SINGLE_ENTER_REMARK
                    (say (EditMessageText
                            (Msg ''Product: {}\<newline>Price: {}\<newline>Location: {}\<newline>\<newline>Please enter remarks, or use /skip_remark_single.''
                               [p, pr, VStr selected_location]) NoMarkup) w2)
              | _ \<Rightarrow> raise KeyError w2))"

definition show_single_entry_confirmation :: handler where
  "show_single_entry_confirmation e upd w =
     (let (current_entry, ud1) = get_current_entry_data (user_data w);
          w1 = set_ud ud1 w;
          remark = get_or_none current_entry ''remark'';
          summary = Msg ''--- Confirm Single Entry ---\<newline>\<newline>Product: {}\<newline>Price: {}\<newline>Location: {}\<newline>Remark: {}\<newline>\<newline>Submit this entry?''
                      [get_or_none current_entry ''product'', get_or_none current_entry ''price'',
                       get_or_none current_entry ''location'',
                       (if truthy remark then remark else VStr ''None'')];
          keyboard = InlineKeyboardMarkup
            [[(''Yes, Submit'', CB_CREATE_SINGLE_SUBMIT_FINAL)],
             [(''No, Cancel'', CB_CREATE_SINGLE_CANCEL_CONFIRM)]]
      in ret CREATE_SINGLE_CONFIRM_SUBMISSION (send_or_edit upd summary keyboard w1))"

definition single_entry_remark_entry :: handler where
  "single_entry_remark_entry e upd w =
     (let (current_entry, ud1) = get_current_entry_data (user_data w);
          w1 = set_ud ud1 w
      in case message_text upd of
           None \<Rightarrow> raise AttributeError w1
         | Some t \<Rightarrow>
             (let w2 = set_ud (ud1\<lparr>current_entry :=
                                 Some (dict_set ''remark'' (VStr t) current_entry)\<rparr>) w1
              in show_single_entry_confirmation e upd
                   (say (ReplyText (Msg ''Remark set.'' []) NoMarkup) w2)))"

definition single_skip_remark_entry :: handler where
  "single_skip_remark_entry e upd w =
     (let (current_entry, ud1) = get_current_entry_data (user_data w);
          w1 = set_ud (ud1\<lparr>current_entry :=
                         Some (dict_set ''remark'' (VStr []) current_entry)\<rparr>) w
      in case message_text upd of
           None \<Rightarrow> raise AttributeError w1
         | Some t \<Rightarrow>
             show_single_entry_confirmation e upd
               (say (ReplyText (Msg ''Remark skipped.'' []) NoMarkup) w1))"

definition submit_single_entry_data :: handler where
  "submit_single_entry_data e upd w =
     (case callback_data upd of
        None \<Rightarrow> raise AttributeError w
      | Some d \<Rightarrow>
          (let w1 = say (EditMessageText (Msg ''Submitting entry...'' []) NoMarkup)
                      (say (Answer None False) w);
               (entry_data, ud1) = get_current_entry_data (user_data w1);
               w2 = set_ud ud1 w1;
               entry_id = uuid4 e 0;
               row_data = dict_of_pairs
                 [(ID_FIELD, VStr entry_id),
                  (TIMESTAMP_FIELD, VStr (isoformat e (now e))),
                  (EMAIL_FIELD, VStr (user_identifier upd)),
                  (PRODUCT_FIELD, get_or_none entry_data ''product''),
                  (PRICE_FIELD, get_or_none entry_data ''price''),
                  (LOCATION_FIELD, get_or_none entry_data ''location''),
                  (REMARK_FIELD, (case dict_get entry_data ''remark'' of
                                    None \<Rightarrow> VStr [] | Some r \<Rightarrow> r))];
               row_values = row_of (gs w2) row_data;
               (success, g') = append_rows_to_sheet e [row_values] (gs w2);
               w3 = w2\<lparr>gs := g'\<rparr>;
               final_message =
                 (if success
                  then Msg ''Entry submitted successfully.\<newline>ID: {}\<newline>\<newline>What would you like to do next?''
                         [VStr entry_id]
                  else Msg ''Entry submission failed. Please contact an admin.\<newline>\<newline>What would you like to do next?'' []);
               w4 = say (EditMessageText final_message build_post_action_keyboard) w3
           in ret END (set_ud user_data_clear w4)))"

definition handle_entry_type_selection :: handler where
  "handle_entry_type_selection e upd w =
     (case callback_data upd of
        None \<Rightarrow> raise AttributeError w
      | Some choice \<Rightarrow>
          (let w1 = say (Answer None False) w
           in if choice = CB_CREATE_CHOOSE_TYPE_SINGLE then ask_single_entry_product e upd w1
              else if choice = CB_CREATE_CHOOSE_TYPE_BATCH
              then ask_batch_common_location e upd
                     (set_ud ((user_data w1)\<lparr>batch_entries := Some [],
                                              batch_selected_products := Some []\<rparr>) w1)
              else if choice = CB_CREATE_CANCEL_ENTIRE then cancel_conversation e upd w1
              else ret CREATE_CHOOSE_ENTRY_TYPE w1))"

subsection \<open>common\_handlers.py: the navigation fallback\<close>

definition post_conversation_callback_handler :: handler where
  "post_conversation_callback_handler e upd w =
     (case callback_data upd of
        None \<Rightarrow> raise AttributeError w
      | Some d \<Rightarrow>
          (let w1 = set_ud user_data_clear (say (Answer None False) w)
           in if d = CB_MAIN_MENU_PREFIX @ ''menu'' then ret END (main_menu_command_simple upd w1)
              else if d = CB_MAIN_MENU_PREFIX @ ''new'' then start_new_entry e upd w1
              else ret END w1))"

subsection \<open>handlers/update.py\<close>

definition UPDATABLE_FIELDS_MAP :: "string dict" where
  "UPDATABLE_FIELDS_MAP =
     [(''product'', PRODUCT_FIELD), (''price'', PRICE_FIELD), (''location'', LOCATION_FIELD),
      (''remark'', REMARK_FIELD)]"

definition UPDATABLE_FIELDS_DISPLAY_ORDER :: "string list" where
  "UPDATABLE_FIELDS_DISPLAY_ORDER = [''product'', ''price'', ''location'', ''remark'']"

definition start_update_entry :: handler where
  "start_update_entry e upd w =
     ret UPDATE_ASK_ID
       (say (ReplyText (Msg ''Please enter the ID of the entry you wish to update:'' []) NoMarkup) w)"

definition show_field_selection_for_update :: handler where
  "show_field_selection_for_update e upd w =
     (case update_original_data (user_data w) of
        None \<Rightarrow> raise KeyError w
      | Some original_data \<Rightarrow>
          (let selected_keys = (case fields_to_update_selected_keys (user_data w) of
                                  None \<Rightarrow> [] | Some ks \<Rightarrow> ks);
               rows = map (\<lambda>key.
                        (let field = the (dict_get UPDATABLE_FIELDS_MAP key);
                             v = (case dict_get original_data field of None \<Rightarrow> ''N/A'' | Some x \<Rightarrow> x);
                             display_value = (if 15 < length v then take 15 v @ ''...'' else v)
                         in [((if key \<in> set selected_keys then ''[x] '' else ''[ ] '') @
                                py_title key @ '': '' @ display_value,
                              CB_UPDATE_FIELD_TOGGLE_PREFIX @ key)]))
                      UPDATABLE_FIELDS_DISPLAY_ORDER @
                      [[(''Proceed with Selection'', CB_UPDATE_PROCEED_WITH_SELECTION)],
                       [(''Cancel Update'', CB_UPDATE_CANCEL_FIELD_SELECTION)]];
               formatted_entry = format_entry_details_markdown original_data ''Entry Details''
           in case update_entry_id (user_data w) of
                None \<Rightarrow> raise KeyError w
              | Some entry_id \<Rightarrow>
                  ret UPDATE_SELECT_FIELDS_TOGGLE
                    (send_or_edit upd
                       (Msg ''*Updating Entry ID: `{}`*\<newline>\<newline>{}\<newline>\<newline>Select fields to update, then click 'Proceed'.''
                          [VStr entry_id, VStr formatted_entry])
                       (InlineKeyboardMarkup rows) w)))"

definition ask_id_received :: handler where
  "ask_id_received e upd w =
     (case message_text upd of
        None \<Rightarrow> raise AttributeError w
      | Some t \<Rightarrow>
          (let entry_id = py_strip t;
               not_found = ret UPDATE_ASK_ID
                 (say (ReplyText (Msg ''No entry found with ID: `{}`. Please try again, or /cancel.''
                                    [VStr entry_id]) NoMarkup) w)
           in case find_row_by_id e (gs w) entry_id of
                None \<Rightarrow> not_found
              | Some (row_num, entry_data_list) \<Rightarrow>
                  if entry_data_list = [] then not_found
                  else show_field_selection_for_update e upd
                         (set_ud ((user_data w)
                            \<lparr>update_entry_id := Some entry_id,
                             update_row_num := Some row_num,
                             update_original_data :=
                               Some (dict_of_pairs (zip (HEADERS (gs w)) entry_data_list)),
                             fields_to_update_selected_keys := Some [],
                             new_values_for_update_map := Some []\<rparr>) w)))"

definition toggle_field_selection_callback :: handler where
  "toggle_field_selection_callback e upd w =
     (case callback_data upd of
        None \<Rightarrow> raise AttributeError w
      | Some d \<Rightarrow>
          (let w1 = say (Answer None False) w;
               key = py_replace CB_UPDATE_FIELD_TOGGLE_PREFIX [] d;
               w2 = set_ud ((user_data w1)\<lparr>fields_to_update_selected_keys :=
                              map_option (toggle key)
                                (fields_to_update_selected_keys (user_data w1))\<rparr>) w1
           in show_field_selection_for_update e upd w2))"

definition confirm_multiple_changes :: handler where
  "confirm_multiple_changes e upd w =
     (case new_values_for_update_map (user_data w) of
        None \<Rightarrow> raise KeyError w
      | Some new_values \<Rightarrow>
          if new_values = []
          then ret END
                 (set_ud user_data_clear
                    (send_or_edit upd
                       (Msg ''No changes were made. Update canceled.\<newline>\<newline>What would you like to do next?'' [])
                       build_post_action_keyboard w))
          else (case update_original_data (user_data w) of
                  None \<Rightarrow> raise KeyError w
                | Some original_data \<Rightarrow>
                    (let summary =
                           [''*Confirm Changes:*''] @
                           map (\<lambda>(field, v). ''  - *{}:* `{}` -> `{}`'') new_values @
                           [''\<newline>Apply these updates?''];
                         args = concat (map (\<lambda>(field, v).
                                  [VStr (clean_and_format_for_display field),
                                   VStr (escape_markdown_v2
                                           (case dict_get original_data field of
                                              None \<Rightarrow> ''N/A'' | Some x \<Rightarrow> x)),
                                   VStr (escape_markdown_v2 (py_str e v))]) new_values);
                         reply_markup = InlineKeyboardMarkup
                           [[(''Yes, Apply Updates'', CB_UPDATE_EXECUTE_CONFIRMED)],
                            [(''No, Cancel'', CB_UPDATE_CANCEL_FINAL_CONFIRM)]]
                     in ret UPDATE_CONFIRM_MULTIPLE
                          (send_or_edit upd (Msg (py_join ''\<newline>'' summary) args) reply_markup w))))"

definition ask_for_next_field_value :: handler where
  "ask_for_next_field_value e upd w =
     (let queue = (case update_fields_queue (user_data w) of None \<Rightarrow> [] | Some q \<Rightarrow> q)
      in case queue of
           [] \<Rightarrow> confirm_multiple_changes e upd w
         | key # rest \<Rightarrow>
             (let w1 = set_ud ((user_data w)\<lparr>current_field_being_updated_key := Some key\<rparr>) w
              in case update_original_data (user_data w1) of
                   None \<Rightarrow> raise KeyError w1
                 | Some original_data \<Rightarrow>
                     (case dict_get UPDATABLE_FIELDS_MAP key of
                        None \<Rightarrow> raise KeyError w1
                      | Some field \<Rightarrow>
                          (let original_value =
                                 (case dict_get original_data field of None \<Rightarrow> ''N/A'' | Some x \<Rightarrow> x);
                               arg = [VStr (escape_markdown_v2 original_value)];
                               (txt, reply_markup) =
                                 (if key = ''product''
                                  then (Msg ''Select new *Product* (current: `{}`):'' arg,
                                        build_keyboard PRODUCTS CB_UPDATE_NEWVAL_PRODUCT_PREFIX)
                                  else if key = ''location''
                                  then (Msg ''Select new *Location* (current: `{}`):'' arg,
                                        build_keyboard LOCATIONS CB_UPDATE_NEWVAL_LOCATION_PREFIX)
                                  else if key = ''price''
                                  then (Msg ''Enter new *Price* (current: `{}`):'' arg, NoMarkup)
                                  else if key = ''remark''
                                  then (Msg ''Enter new *Remark* (current: `{}`)\<newline>or use /skip_remark_update.'' arg,
                                        NoMarkup)
                                  else (Msg [] [], NoMarkup))
                           in ret UPDATE_ENTER_MULTIPLE_VALUES (send_or_edit upd txt reply_markup w1)))))"

definition proceed_with_selected_fields_callback :: handler where
  "proceed_with_selected_fields_callback e upd w =
     (case callback_data upd of
        None \<Rightarrow> raise AttributeError w
      | Some d \<Rightarrow>
          (let w1 = say (Answer None False) w;
               selected_keys = (case fields_to_update_selected_keys (user_data w1) of
                                  None \<Rightarrow> [] | Some ks \<Rightarrow> ks)
           in if selected_keys = []
              then ret UPDATE_SELECT_FIELDS_TOGGLE
                     (say (Answer (Some ''Please select at least one field to update.'') True) w1)
              else ask_for_next_field_value e upd
                     (set_ud ((user_data w1)\<lparr>update_fields_queue :=
                                Some (filter (\<lambda>key. key \<in> set selected_keys)
                                        UPDATABLE_FIELDS_DISPLAY_ORDER)\<rparr>) w1)))"

definition store_new_value :: "string option \<Rightarrow> pyval \<Rightarrow> world \<Rightarrow> (py_error \<times> world) + world" where
  \<comment> \<open>\<open>context.user_data['new_values_for_update_map'][field] = new_value\<close> and then
      \<open>context.user_data['update_fields_queue'].pop(0)\<close>; the field is \<open>None\<close> when
      \<open>UPDATABLE_FIELDS_MAP[key]\<close> has no such key\<close>
  "store_new_value field new_value w =
     (case new_values_for_update_map (user_data w) of
        None \<Rightarrow> Inl (KeyError, w)
      | Some new_values \<Rightarrow>
          (case field of
             None \<Rightarrow> Inl (KeyError, w)
           | Some f \<Rightarrow>
               (let w1 = set_ud ((user_data w)\<lparr>new_values_for_update_map :=
                                   Some (dict_set f new_value new_values)\<rparr>) w
                in case update_fields_queue (user_data w1) of
                     None \<Rightarrow> Inl (KeyError, w1)
                   | Some [] \<Rightarrow> Inl (IndexError, w1)
                   | Some (k # q) \<Rightarrow>
                       Inr (set_ud ((user_data w1)\<lparr>update_fields_queue := Some q\<rparr>) w1))))"

definition new_value_for_product_or_location_callback :: handler where
  "new_value_for_product_or_location_callback e upd w =
     (case callback_data upd of
        None \<Rightarrow> raise AttributeError w
      | Some d \<Rightarrow>
          (let w1 = say (Answer None False) w
           in case current_field_being_updated_key (user_data w1) of
                None \<Rightarrow> raise KeyError w1
              | Some key \<Rightarrow>
                  (let pfx = (if key = ''product'' then CB_UPDATE_NEWVAL_PRODUCT_PREFIX
                              else CB_UPDATE_NEWVAL_LOCATION_PREFIX);
                       slug = py_replace pfx [] d;
                       new_value = clean_and_format_for_display slug
                   in case store_new_value (dict_get UPDATABLE_FIELDS_MAP key) (VStr new_value) w1 of
                        Inl x \<Rightarrow> Inl x
                      | Inr w2 \<Rightarrow> ask_for_next_field_value e upd w2)))"

definition new_value_for_text_field_received :: handler where
  "new_value_for_text_field_received e upd w =
     (case current_field_being_updated_key (user_data w) of
        None \<Rightarrow> raise KeyError w
      | Some key \<Rightarrow>
          (case message_text upd of
             None \<Rightarrow> raise AttributeError w
           | Some t \<Rightarrow>
               if key = ''price'' \<and> positive_float e t = None
               then ret UPDATE_ENTER_MULTIPLE_VALUES
                      (say (ReplyText (Msg ''Invalid price. Please enter a positive number.'' [])
                              NoMarkup) w)
               else
                 (let new_value = (if key = ''price'' then VFloat (the (positive_float e t))
                                   else VStr t)
                  in case store_new_value (dict_get UPDATABLE_FIELDS_MAP key) new_value w of
                       Inl x \<Rightarrow> Inl x
                     | Inr w1 \<Rightarrow> ask_for_next_field_value e upd w1)))"

definition skip_remark_update_command :: handler where
  "skip_remark_update_command e upd w =
     (if current_field_being_updated_key (user_data w) = Some ''remark''
      then (case store_new_value (Some REMARK_FIELD) (VStr []) w of
              Inl x \<Rightarrow> Inl x
            | Inr w1 \<Rightarrow> ask_for_next_field_value e upd w1)
      else (case message_text upd of
              None \<Rightarrow> raise AttributeError w
            | Some t \<Rightarrow>
                ret UPDATE_ENTER_MULTIPLE_VALUES
                  (say (ReplyText (Msg ''This command is only for the remark field.'' []) NoMarkup) w)))"

definition update_ops_of :: "env \<Rightarrow> gsheet \<Rightarrow> nat \<Rightarrow> pyval dict \<Rightarrow> (nat \<times> nat \<times> pyval) list" where
  \<comment> \<open>the list \<open>update_ops\<close>: one cell for each new value whose field is a header, then
      the timestamp cell when there is a timestamp header\<close>
  "update_ops_of e g row_num new_values =
     concat (map (\<lambda>(field, v). case py_index (HEADERS g) field of
                                  None \<Rightarrow> []
                                | Some i \<Rightarrow> [(row_num, i + 1, v)]) new_values) @
     (case py_index (HEADERS g) TIMESTAMP_FIELD of
        None \<Rightarrow> []
      | Some i \<Rightarrow> [(row_num, i + 1, VStr (isoformat e (now e)))])"

definition execute_multiple_updates :: handler where
  "execute_multiple_updates e upd w =
     (case callback_data upd of
        None \<Rightarrow> raise AttributeError w
      | Some d \<Rightarrow>
          (let w1 = say (EditMessageText (Msg ''Applying updates...'' []) NoMarkup)
                      (say (Answer None False) w)
           in case (update_row_num (user_data w1), new_values_for_update_map (user_data w1)) of
                (Some row_num, Some new_values) \<Rightarrow>
                  (let update_ops = update_ops_of e (gs w1) row_num new_values;
                       written =
                         (if update_ops = [] then Inr (False, w1)
                          else (case worksheet (gs w1) of
                                  None \<Rightarrow> Inl (AttributeError, w1)
                                | Some ws \<Rightarrow>
                                    if api_raises e then Inl (APIError, w1)
                                    else Inr (api_response e,
                                              w1\<lparr>gs := (gs w1)\<lparr>worksheet :=
                                                     Some (ws_batch_update update_ops ws)\<rparr>\<rparr>)))
                   in case written of
                        Inl x \<Rightarrow> Inl x
                      | Inr (success, w2) \<Rightarrow>
                          (case update_entry_id (user_data w2) of
                             None \<Rightarrow> raise KeyError w2
                           | Some entry_id \<Rightarrow>
                               (let final_message =
                                      (if success
                                       then Msg ''Entry ID `{}` updated successfully.\<newline>\<newline>What would you like to do next?''
                                              [VStr (escape_markdown_v2 entry_id)]
                                       else Msg ''Error! Could not update entry ID `{}`.\<newline>\<newline>What would you like to do next?''
                                              [VStr (escape_markdown_v2 entry_id)]);
                                    w3 = say (EditMessageText final_message build_post_action_keyboard) w2
                                in ret END (set_ud user_data_clear w3))))
              | _ \<Rightarrow> raise KeyError w1))"

definition cancel_update_operation_callback :: handler where
  "cancel_update_operation_callback e upd w =
     (case callback_data upd of
        None \<Rightarrow> raise AttributeError w
      | Some d \<Rightarrow>
          ret END
            (set_ud user_data_clear
               (say (EditMessageText
                       (Msg ''Update operation has been canceled.\<newline>\<newline>What would you like to do next?'' [])
                       build_post_action_keyboard)
                  (say (Answer None False) w))))"

subsection \<open>handlers/delete.py\<close>

definition start_delete_entry :: handler where
  "start_delete_entry e upd w =
     ret DELETE_ASK_ID
       (say (ReplyText (Msg ''Please enter the ID of the entry you want to delete:'' []) NoMarkup) w)"

definition ask_id_received_for_delete :: handler where
  "ask_id_received_for_delete e upd w =
     (case message_text upd of
        None \<Rightarrow> raise AttributeError w
      | Some t \<Rightarrow>
          (let entry_id = py_strip t;
               not_found = ret DELETE_ASK_ID
                 (say (ReplyText (Msg ''No entry found with ID: {}. Please try again or /cancel.''
                                    [VStr entry_id]) NoMarkup) w)
           in case find_row_by_id e (gs w) entry_id of
                None \<Rightarrow> not_found
              | Some (row_num, entry_data_list) \<Rightarrow>
                  if entry_data_list = [] then not_found
                  else
                    (let w1 = set_ud ((user_data w)\<lparr>delete_entry_id := Some entry_id,
                                                     delete_row_num := Some row_num\<rparr>) w;
                         entry_data_dict = dict_of_pairs (zip (HEADERS (gs w)) entry_data_list);
                         formatted_details =
                           format_entry_details_markdown entry_data_dict ''Entry Details'';
                         reply_markup = InlineKeyboardMarkup
                           [[(''Yes, Delete it'', CB_DELETE_CONFIRM_YES)],
                            [(''No, Keep it'', CB_DELETE_CONFIRM_NO)]]
                     in ret DELETE_CONFIRM
                          (say (ReplyText
                                  (Msg ''Found entry:\<newline>{}\<newline>\<newline>**ARE YOU SURE** you want to delete this entry? This action cannot be undone.''
                                     [VStr formatted_details]) reply_markup) w1))))"

definition confirm_delete_callback :: handler where
  "confirm_delete_callback e upd w =
     (case callback_data upd of
        None \<Rightarrow> raise AttributeError w
      | Some action \<Rightarrow>
          (let w1 = say (Answer None False) w;
               finish = (\<lambda>final_message w'.
                  ret END
                    (set_ud user_data_clear
                       (say (EditMessageText final_message build_post_action_keyboard) w')))
           in if action = CB_DELETE_CONFIRM_YES
              then (case (delete_row_num (user_data w1), delete_entry_id (user_data w1)) of
                      (Some row_num, Some entry_id) \<Rightarrow>
                        (let (success, g') = delete_row_from_sheet e row_num (gs w1);
                             w2 = w1\<lparr>gs := g'\<rparr>
                         in if success
                            then finish (Msg ''Entry ID `{}` has been deleted.\<newline>\<newline>What would you like to do next?''
                                           [VStr (escape_markdown_v2 entry_id)]) w2
                            else finish (Msg ''Error deleting entry from Google Sheet.\<newline>\<newline>What would you like to do next?'' []) w2)
                    | _ \<Rightarrow> raise KeyError w1)
              else finish (Msg ''Deletion canceled.\<newline>\<newline>What would you like to do next?'' []) w1))"

subsection \<open>handlers/read.py\<close>

definition view_entries_command :: handler where
  "view_entries_command e upd w =
     (let w1 = set_ud user_data_clear w;
          reply_markup = InlineKeyboardMarkup
            [[(''View Last '' @ str_of_nat DEFAULT_ENTRIES_PER_PAGE_VIEW @ '' Entries'',
               CB_VIEW_LAST_N_PREFIX @ ''0'')],
             [(''View Entry by ID'', CB_VIEW_BY_ID_PROMPT_ACTION)],
             [(''Cancel View'', CB_VIEW_CANCEL_ACTION)]]
      in ret VIEW_AWAITING_MENU_CHOICE
           (send_or_edit upd
              (Msg (escape_markdown_v2 ''How would you like to view entries?'') []) reply_markup w1))"

definition prompt_for_id_callback :: handler where
  "prompt_for_id_callback e upd w =
     (case callback_data upd of
        None \<Rightarrow> raise AttributeError w
      | Some d \<Rightarrow>
          ret VIEW_AWAITING_ID_INPUT
            (say (EditMessageText
                    (Msg (escape_markdown_v2 ''Please send the ID of the entry you want to view:'') [])
                    NoMarkup)
               (say (Answer None False) w)))"

definition handle_id_for_view :: handler where
  "handle_id_for_view e upd w =
     (case message_text upd of
        None \<Rightarrow> raise AttributeError w
      | Some t \<Rightarrow>
          (let entry_id = py_strip t;
               nav_keyboard = build_post_action_keyboard;
               found = (case find_row_by_id e (gs w) entry_id of
                          None \<Rightarrow> []
                        | Some (row_num, entry_data_list) \<Rightarrow> entry_data_list);
               final_message =
                 (if found \<noteq> []
                  then Msg ''{}\<newline>\<newline>What would you like to do next?''
                         [VStr (format_entry_details_markdown
                                  (dict_of_pairs (zip (HEADERS (gs w)) found)) ''Entry Details'')]
                  else Msg ''No entry found with ID: `{}`\<newline>\<newline>What would you like to do next?''
                         [VStr (escape_markdown_v2 entry_id)])
           in ret END (set_ud user_data_clear (say (ReplyText final_message nav_keyboard) w))))"

definition page_text :: "string list \<Rightarrow> nat \<Rightarrow> nat \<Rightarrow> nat \<Rightarrow> string list list \<Rightarrow> string" where
  \<comment> \<open>the lines \<open>text_parts\<close> of a page, joined\<close>
  "page_text header current_page total_entries start_index page_entries =
     py_join ''\<newline>''
       ([escape_markdown_v2 (''Displaying Entries (Page '' @ str_of_nat (current_page + 1) @ '')'')] @
        concat (map (\<lambda>(i, row).
                  [escape_markdown_v2
                     (''\<newline>--- Entry '' @ str_of_nat (total_entries - (start_index + i)) @ '' ---''),
                   format_entry_details_markdown (dict_of_pairs (zip header row)) []])
                (zip [0 ..< length page_entries] page_entries)))"

definition requested_page :: "string \<Rightarrow> nat" where
  \<comment> \<open>\<open>current_page\<close>, read off the callback data\<close>
  "requested_page d =
     (let action_parts = py_split_on CHR ''_'' d
      in if 2 \<le> length action_parts \<and> py_isdigit (last action_parts)
         then py_int (last action_parts) else 0)"

definition view_last_entries_callback :: handler where
  "view_last_entries_callback e upd w =
     (case callback_data upd of
        None \<Rightarrow> raise AttributeError w
      | Some d \<Rightarrow>
          (let w1 = say (Answer None False) w;
               current_page = requested_page d;
               w2 = say (EditMessageText (Msg (escape_markdown_v2 ''Fetching entries...'') []) NoMarkup) w1;
               failed = ret END
                 (say (EditMessageText
                         (Msg (escape_markdown_v2 ''An error occurred while fetching data.'') [])
                         build_post_action_keyboard) w2)
           in case worksheet (gs w2) of
                None \<Rightarrow> failed
              | Some ws \<Rightarrow>
                  if api_raises e then failed
                  else
                    (let all_values = ws_get_all_values ws
                     in if length all_values \<le> 1
                        then ret END
                               (say (EditMessageText
                                       (Msg (escape_markdown_v2
                                               ''The sheet has no data entries.\<newline>\<newline>What would you like to do next?'') [])
                                       build_post_action_keyboard) w2)
                        else
                          (let header = HEADERS (gs w2);
                               data_rows = rev (tl all_values);
                               total_entries = length data_rows;
                               per_page = DEFAULT_ENTRIES_PER_PAGE_VIEW;
                               start_index = current_page * per_page;
                               end_index = (current_page + 1) * per_page;
                               page_entries = take (end_index - start_index) (drop start_index data_rows)
                           in if page_entries = []
                              then ret VIEW_PAGINATING_ENTRIES
                                     (say (Answer (Some ''No more entries to display.'') True) w2)
                              else
                                (let nav_row =
                                       (if 0 < current_page
                                        then [(''Prev'', CB_VIEW_LAST_N_PREFIX @ str_of_nat (current_page - 1))]
                                        else []) @
                                       (if end_index < total_entries
                                        then [(''Next'', CB_VIEW_LAST_N_PREFIX @ str_of_nat (current_page + 1))]
                                        else []);
                                     reply_markup = InlineKeyboardMarkup
                                       [nav_row, [(''Back to View Options'', CB_VIEW_BACK_TO_MENU_ACTION)]]
                                 in ret VIEW_PAGINATING_ENTRIES
                                      (send_or_edit upd
                                         (Msg (page_text header current_page total_entries start_index
                                                 page_entries) [])
                                         reply_markup w2))))))"

definition navigate_back_to_view_menu :: handler where
  "navigate_back_to_view_menu e upd w =
     (case callback_data upd of
        None \<Rightarrow> raise AttributeError w
      | Some d \<Rightarrow> view_entries_command e upd (say (Answer None False) w))"

definition cancel_view_callback :: handler where
  "cancel_view_callback e upd w =
     (case callback_data upd of
        None \<Rightarrow> raise AttributeError w
      | Some d \<Rightarrow>
          ret END
            (set_ud user_data_clear
               (say (EditMessageText
                       (Msg ''View operation canceled.\<newline>\<newline>What would you like to do next?'' [])
                       build_post_action_keyboard)
                  (say (Answer None False) w))))"

subsection \<open>handlers/insights.py\<close>

definition non_ascii :: char where
  \<comment> \<open>stands for one code point of an emoji where the length of a text is measured\<close>
  "non_ascii = CHR 0xFF"

definition start_insights_menu :: handler where
  "start_insights_menu e upd w =
     (let w1 = set_ud user_data_clear w;
          reply_markup = InlineKeyboardMarkup
            [[(''Avg Price by Product'', CB_INSIGHTS_PREFIX @ ''by_product'')],
             [(''Avg Price by Location'', CB_INSIGHTS_PREFIX @ ''by_location'')],
             [(''Avg Price by Product & Location'', CB_INSIGHTS_PREFIX @ ''by_prod_loc'')],
             [(''Cancel Insights'', CB_INSIGHTS_PREFIX @ ''cancel'')]]
      in ret INSIGHTS_MENU_DISPLAYED
           (send_or_edit upd
              (Msg (''*Price Insights Menu:*\<newline>Select the type of insight you want to see'' @
                    [CHR 0x5C] @ ''.'') [])
              reply_markup w1))"

definition key_strings :: "group_key \<Rightarrow> string list" where
  "key_strings k = (case k of Key s \<Rightarrow> [s] | KeyTuple ss \<Rightarrow> ss)"

definition sorted_items :: "(group_key \<times> group_stats) list \<Rightarrow> (group_key \<times> group_stats) list" where
  \<comment> \<open>\<open>sorted(calculated_averages.items())\<close>: by key, strings in code point order\<close>
  "sorted_items items = sort_key (\<lambda>(k, d). key_strings k) items"

definition insight_line :: "string \<Rightarrow> group_stats \<Rightarrow> string" where
  \<comment> \<open>a line of the modes by product and by location: the label and its figures\<close>
  "insight_line lbl d =
     ''  '' @ [non_ascii] @ '' *'' @ escape_markdown_v2 lbl @ '':* `'' @ format_2f (average d) @
     ''` '' @ [CHR 0x5C] @ ''(from '' @ str_of_nat (count d) @ '' entries'' @ [CHR 0x5C] @ '')''"

definition location_line :: "string \<Rightarrow> group_stats \<Rightarrow> string" where
  \<comment> \<open>a line below a product in the mode by product and location\<close>
  "location_line location_key d =
     ''    '' @ [non_ascii] @ '' _'' @ escape_markdown_v2 location_key @ '':_ `'' @
     format_2f (average d) @ ''` '' @ [CHR 0x5C] @ ''('' @ str_of_nat (count d) @ '' entries'' @
     [CHR 0x5C] @ '')''"

fun group_lines :: "string \<Rightarrow> string \<Rightarrow> (string \<times> string list) list \<Rightarrow> (string \<times> string list) list" where
  \<comment> \<open>\<open>grouped_by_prod_display[product_key].append(line)\<close>, the list created when missing\<close>
  "group_lines k line [] = [(k, [line])]"
| "group_lines k line ((k', ls) # rest) =
     (if k' = k then (k', ls @ [line]) # rest else (k', ls) # group_lines k line rest)"

definition result_text_parts :: "env \<Rightarrow> string \<Rightarrow> insight list \<Rightarrow> string list option" where
  \<comment> \<open>the lines of the breakdown; \<open>None\<close> for a selection that is not one of the three\<close>
  "result_text_parts e action insights_data =
     (if action = ''by_product''
      then Some (''*Average Price Insights:*\<newline>'' #
                 map (\<lambda>(k, d). insight_line (key_strings k ! 0) d)
                   (sorted_items (calculate_average_prices e insights_data (GroupBy ''product''))))
      else if action = ''by_location''
      then Some (''*Average Price Insights:*\<newline>'' #
                 map (\<lambda>(k, d). insight_line (key_strings k ! 0) d)
                   (sorted_items (calculate_average_prices e insights_data (GroupBy ''location''))))
      else if action = ''by_prod_loc''
      then (let grouped_by_prod_display =
                  foldl (\<lambda>g (k, d). group_lines (key_strings k ! 0)
                                       (location_line (key_strings k ! 1) d) g)
                    []
                    (sorted_items (calculate_average_prices e insights_data
                                     (GroupByTuple [''product'', ''location''])))
            in Some (''*Average Price Insights:*\<newline>'' #
                     concat (map (\<lambda>(product_display, details_list).
                                    (''\<newline>  '' @ [non_ascii] @ '' *'' @
                                     escape_markdown_v2 product_display @ '':*'') # details_list)
                               grouped_by_prod_display)))
      else None)"

definition insights_menu_callback :: handler where
  "insights_menu_callback e upd w =
     (case callback_data upd of
        None \<Rightarrow> raise AttributeError w
      | Some d \<Rightarrow>
          (let w1 = say (Answer None False) w;
               action = py_replace CB_INSIGHTS_PREFIX [] d;
               nav_keyboard = build_post_action_keyboard
           in if action = ''cancel''
              then ret END
                     (set_ud user_data_clear
                        (say (EditMessageText
                                (Msg ''Insights operation canceled.\<newline>\<newline>What would you like to do next?'' [])
                                nav_keyboard) w1))
              else
                (let w2 = say (EditMessageText
                                 (Msg (escape_markdown_v2 ''Calculating insights, please wait...'') [])
                                 NoMarkup) w1;
                     insights_data = get_all_data_for_insights e (gs w2)
                 in if insights_data = []
                    then ret END
                           (set_ud user_data_clear
                              (say (EditMessageText
                                      (Msg ''No data available for insights.\<newline>\<newline>What would you like to do next?'' [])
                                      nav_keyboard) w2))
                    else
                      (case result_text_parts e action insights_data of
                         None \<Rightarrow>
                           ret INSIGHTS_MENU_DISPLAYED
                             (say (EditMessageText
                                     (Msg (escape_markdown_v2
                                             ''Invalid insight selection. Please try again.'') [])
                                     NoMarkup) w2)
                       | Some parts \<Rightarrow>
                           (let final_result_text =
                                  py_join ''\<newline>'' parts @
                                  ''\<newline>\<newline>What would you like to do next?'';
                                shown =
                                  (if 4000 < length final_result_text
                                   then Msg (escape_markdown_v2
                                               ''Insights generated successfully, but the result is too long to display directly.\<newline>\<newline>What would you like to do next?'') []
                                   else Msg final_result_text [])
                            in ret END
                                 (set_ud user_data_clear
                                    (say (EditMessageText shown nav_keyboard) w2)))))))"

section \<open>The conversations and their dispatch\<close>

text \<open>
  A pattern of a \<open>CallbackQueryHandler\<close> is matched from the start of the callback data.
  The patterns of the program have four shapes: \<open>^(a|b)$\<close>, \<open>^(a|b).*\<close>, \<open>^a\d+$\<close>
  and no pattern at all.  The only message filter is \<open>filters.TEXT & ~filters.COMMAND\<close>.
\<close>

datatype pattern =
    Exactly "string list"
  | StartsWith "string list"
  | StartsWithDigits string
  | AnyData

datatype matcher =
    CommandHandler string
  | MessageHandler
  | CallbackQueryHandler pattern

definition ends_here :: "string \<Rightarrow> bool" where
  \<comment> \<open>what \<open>$\<close> accepts: the end, or a line feed before the end\<close>
  "ends_here rest = (rest = [] \<or> rest = [CHR 0x0A])"

fun pattern_matches :: "pattern \<Rightarrow> string \<Rightarrow> bool" where
  "pattern_matches (Exactly alts) d = list_ex (\<lambda>a. prefix a d \<and> ends_here (drop (length a) d)) alts"
| "pattern_matches (StartsWith alts) d = list_ex (\<lambda>a. prefix a d) alts"
| "pattern_matches (StartsWithDigits a) d =
     (prefix a d \<and>
      (let rest = drop (length a) d; ds = takeWhile is_digit rest
       in ds \<noteq> [] \<and> ends_here (drop (length ds) rest)))"
| "pattern_matches AnyData d = True"

definition command_char :: "char \<Rightarrow> bool" where
  "command_char c = (is_lower c \<or> is_upper c \<or> is_digit c \<or> c = CHR ''_'')"

definition command_word :: "string \<Rightarrow> string option" where
  \<comment> \<open>the command a text starts with, in lower case\<close>
  "command_word t =
     (case t of
        [] \<Rightarrow> None
      | c # rest \<Rightarrow>
          if c = CHR ''/'' \<and> takeWhile command_char rest \<noteq> []
          then Some (py_lower (takeWhile command_char rest)) else None)"

fun matches :: "matcher \<Rightarrow> event \<Rightarrow> bool" where
  "matches (CommandHandler c) (TextMessage t) = (command_word t = Some c)"
| "matches (CommandHandler c) (ButtonPress d) = False"
| "matches MessageHandler (TextMessage t) = (command_word t = None)"
| "matches MessageHandler (ButtonPress d) = False"
| "matches (CallbackQueryHandler p) (ButtonPress d) = pattern_matches p d"
| "matches (CallbackQueryHandler p) (TextMessage t) = False"

record conversation =
  entry_points :: "(matcher \<times> handler) list"
  states :: "(int \<times> (matcher \<times> handler) list) list"
  fallbacks :: "(matcher \<times> handler) list"

definition create_conv_handler :: conversation where
  "create_conv_handler =
     \<lparr>entry_points =
        [(CommandHandler ''new'', start_new_entry),
         (CallbackQueryHandler (Exactly [CB_MAIN_MENU_PREFIX @ ''new'']), start_new_entry)],
      states =
        [(CREATE_CHOOSE_ENTRY_TYPE,
            [(CallbackQueryHandler (Exactly [CB_CREATE_CHOOSE_TYPE_SINGLE,
                                             CB_CREATE_CHOOSE_TYPE_BATCH,
                                             CB_CREATE_CANCEL_ENTIRE]),
              handle_entry_type_selection)]),
         (CREATE_BATCH_SELECT_LOCATION,
            [(CallbackQueryHandler (StartsWith [CB_CREATE_BATCH_COMMON_LOCATION_PREFIX]),
              batch_common_location_selection)]),
         (CREATE_BATCH_ENTER_REMARK,
            [(CommandHandler ''skip_remark_batch'', batch_skip_common_remark),
             (MessageHandler, batch_common_remark_entry)]),
         (CREATE_BATCH_TOGGLE_PRODUCTS,
            [(CallbackQueryHandler (StartsWith [CB_CREATE_BATCH_PRODUCT_TOGGLE_PREFIX]),
              toggle_batch_product_selection),
             (CallbackQueryHandler (Exactly [CB_CREATE_BATCH_PRODUCTS_DONE]),
              batch_products_selection_done)]),
         (CREATE_BATCH_ENTER_PRICE, [(MessageHandler, batch_price_entry)]),
         (CREATE_BATCH_CONFIRM_SUBMISSION,
            [(CallbackQueryHandler (Exactly [CB_CREATE_BATCH_SUBMIT_FINAL]), submit_batch_data),
             (CallbackQueryHandler (Exactly [CB_CREATE_BATCH_CANCEL_CONFIRM]), cancel_conversation)]),
         (CREATE_SINGLE_SELECT_PRODUCT,
            [(CallbackQueryHandler (StartsWith [CB_CREATE_SINGLE_PRODUCT_PREFIX]),
              single_entry_product_selection)]),
         (CREATE_SINGLE_ENTER_PRICE, [(MessageHandler, single_entry_price_entry)]),
         (CREATE_SINGLE_SELECT_LOCATION,
            [(CallbackQueryHandler (StartsWith [CB_CREATE_SINGLE_LOCATION_PREFIX]),
              single_entry_location_selection)]),
         (CREATE_SINGLE_ENTER_REMARK,
            [(CommandHandler ''skip_remark_single'', single_skip_remark_entry),
             (MessageHandler, single_entry_remark_entry)]),
         (CREATE_SINGLE_CONFIRM_SUBMISSION,
            [(CallbackQueryHandler (Exactly [CB_CREATE_SINGLE_SUBMIT_FINAL]), submit_single_entry_data),
             (CallbackQueryHandler (Exactly [CB_CREATE_SINGLE_CANCEL_CONFIRM]), cancel_conversation)])],
      fallbacks =
        [(CommandHandler ''cancel'', cancel_conversation),
         (CallbackQueryHandler (Exactly [CB_CREATE_CANCEL_ENTIRE]), cancel_conversation),
         (CallbackQueryHandler AnyData, post_conversation_callback_handler)]\<rparr>"

definition read_conv_handler :: conversation where
  "read_conv_handler =
     \<lparr>entry_points =
        [(CommandHandler ''view'', view_entries_command),
         (CallbackQueryHandler (Exactly [CB_MAIN_MENU_PREFIX @ ''view'']), view_entries_command)],
      states =
        [(VIEW_AWAITING_MENU_CHOICE,
            [(CallbackQueryHandler (Exactly [CB_VIEW_BY_ID_PROMPT_ACTION]), prompt_for_id_callback),
             (CallbackQueryHandler (StartsWithDigits CB_VIEW_LAST_N_PREFIX), view_last_entries_callback),
             (CallbackQueryHandler (Exactly [CB_VIEW_CANCEL_ACTION]), cancel_view_callback)]),
         (VIEW_AWAITING_ID_INPUT, [(MessageHandler, handle_id_for_view)]),
         (VIEW_PAGINATING_ENTRIES,
            [(CallbackQueryHandler (StartsWithDigits CB_VIEW_LAST_N_PREFIX), view_last_entries_callback),
             (CallbackQueryHandler (Exactly [CB_VIEW_BACK_TO_MENU_ACTION]), navigate_back_to_view_menu),
             (CallbackQueryHandler (Exactly [CB_VIEW_CANCEL_ACTION]), cancel_view_callback)])],
      fallbacks =
        [(CommandHandler ''cancel'', cancel_conversation),
         (CallbackQueryHandler (Exactly [CB_VIEW_CANCEL_ACTION]), cancel_view_callback),
         (CallbackQueryHandler AnyData, post_conversation_callback_handler)]\<rparr>"

definition update_conv_handler :: conversation where
  "update_conv_handler =
     \<lparr>entry_points =
        [(CommandHandler ''update'', start_update_entry),
         (CallbackQueryHandler (Exactly [CB_MAIN_MENU_PREFIX @ ''update'']), start_update_entry)],
      states =
        [(UPDATE_ASK_ID, [(MessageHandler, ask_id_received)]),
         (UPDATE_SELECT_FIELDS_TOGGLE,
            [(CallbackQueryHandler (StartsWith [CB_UPDATE_FIELD_TOGGLE_PREFIX]),
              toggle_field_selection_callback),
             (CallbackQueryHandler (Exactly [CB_UPDATE_PROCEED_WITH_SELECTION]),
              proceed_with_selected_fields_callback),
             (CallbackQueryHandler (Exactly [CB_UPDATE_CANCEL_FIELD_SELECTION]),
              cancel_update_operation_callback)]),
         (UPDATE_ENTER_MULTIPLE_VALUES,
            [(CallbackQueryHandler (StartsWith [CB_UPDATE_NEWVAL_PRODUCT_PREFIX,
                                                CB_UPDATE_NEWVAL_LOCATION_PREFIX]),
              new_value_for_product_or_location_callback),
             (CommandHandler ''skip_remark_update'', skip_remark_update_command),
             (MessageHandler, new_value_for_text_field_received)]),
         (UPDATE_CONFIRM_MULTIPLE,
            [(CallbackQueryHandler (Exactly [CB_UPDATE_EXECUTE_CONFIRMED]), execute_multiple_updates),
             (CallbackQueryHandler (Exactly [CB_UPDATE_CANCEL_FINAL_CONFIRM]), cancel_conversation)])],
      fallbacks =
        [(CommandHandler ''cancel'', cancel_conversation),
         (CallbackQueryHandler AnyData, post_conversation_callback_handler)]\<rparr>"

definition delete_conv_handler :: conversation where
  "delete_conv_handler =
     \<lparr>entry_points =
        [(CommandHandler ''delete'', start_delete_entry),
         (CallbackQueryHandler (Exactly [CB_MAIN_MENU_PREFIX @ ''delete'']), start_delete_entry)],
      states =
        [(DELETE_ASK_ID, [(MessageHandler, ask_id_received_for_delete)]),
         (DELETE_CONFIRM,
            [(CallbackQueryHandler (Exactly [CB_DELETE_CONFIRM_YES, CB_DELETE_CONFIRM_NO]),
              confirm_delete_callback)])],
      fallbacks =
        [(CommandHandler ''cancel'', cancel_conversation),
         (CallbackQueryHandler AnyData, post_conversation_callback_handler)]\<rparr>"

definition insights_conv_handler :: conversation where
  "insights_conv_handler =
     \<lparr>entry_points =
        [(CommandHandler ''insights'', start_insights_menu),
         (CallbackQueryHandler (Exactly [CB_MAIN_MENU_PREFIX @ ''insights'']), start_insights_menu)],
      states =
        [(INSIGHTS_MENU_DISPLAYED,
            [(CallbackQueryHandler (StartsWith [CB_INSIGHTS_PREFIX]), insights_menu_callback)])],
      fallbacks =
        [(CommandHandler ''cancel'', cancel_conversation),
         (CallbackQueryHandler (Exactly [CB_INSIGHTS_PREFIX @ ''cancel'']), insights_menu_callback),
         (CallbackQueryHandler AnyData, post_conversation_callback_handler)]\<rparr>"

text \<open>
  Modelled from the spec: the dispatcher, which in the program is the chat library's
  conversation handler and not part of the sources.  With no active dialog the entry
  points are scanned; otherwise the transitions of the current state and then the
  fallbacks; the first matcher that accepts wins; an event that nothing matches is
  dropped; \<open>END\<close> clears the session and deactivates the dialog; an exception leaves state
  and session as they are.
\<close>

fun first_match :: "(matcher \<times> handler) list \<Rightarrow> event \<Rightarrow> handler option" where
  "first_match [] ev = None"
| "first_match ((m, h) # hs) ev = (if matches m ev then Some h else first_match hs ev)"

definition transitions :: "conversation \<Rightarrow> int \<Rightarrow> (matcher \<times> handler) list" where
  "transitions c s = (case map_of (states c) s of None \<Rightarrow> [] | Some hs \<Rightarrow> hs)"

definition select_handler :: "conversation \<Rightarrow> int option \<Rightarrow> event \<Rightarrow> handler option" where
  "select_handler c current_state ev =
     (case current_state of
        None \<Rightarrow> first_match (entry_points c) ev
      | Some s \<Rightarrow> first_match (transitions c s @ fallbacks c) ev)"



section \<open>A concrete environment\<close>

text \<open>
  The instances below give the theorems concrete inputs.  \<open>decimal_float\<close> reads plain
  decimal literals such as \<open>12.5\<close>, on which it agrees with Python's \<open>float\<close>; Python
  accepts more.
\<close>

definition decimal_float :: "string \<Rightarrow> rat option" where
  "decimal_float s =
     (let ip = takeWhile is_digit s; rest = dropWhile is_digit s
      in if ip = [] then None
         else if rest = [] then Some (of_nat (py_int ip))
         else if hd rest = CHR ''.'' \<and> tl rest \<noteq> [] \<and> list_all is_digit (tl rest)
         then Some (of_nat (py_int ip) + of_nat (py_int (tl rest)) / 10 ^ length (tl rest))
         else None)"

definition show_cell :: "pyval \<Rightarrow> string" where
  "show_cell v = (case v of VNone \<Rightarrow> [] | VStr s \<Rightarrow> s | VInt i \<Rightarrow> str_of_int i
                  | VFloat q \<Rightarrow> format_2f q)"

definition env0 :: env where
  "env0 = \<lparr>now = 1000, isoformat = (\<lambda>t. ''T'' @ str_of_nat t),
           uuid4 = (\<lambda>i. ''uuid-'' @ str_of_nat i), float_of_str = decimal_float,
           str_of_float = format_2f, api_raises = False, api_response = True\<rparr>"

definition user0 :: tg_user where
  "user0 = \<lparr>username = Some ''abebe'', user_id = 42, first_name = ''Abebe''\<rparr>"

definition press :: "string \<Rightarrow> tg_update" where
  "press d = \<lparr>event = ButtonPress d, from_user = user0\<rparr>"


definition worksheet0 :: gspread_worksheet where
  \<comment> \<open>a sheet with the header row and one entry\<close>
  "worksheet0 =
     \<lparr>cells = [map VStr DEFAULT_HEADERS,
               [VStr ''id-1'', VStr ''T1'', VStr ''abebe'', VStr ''Potatoes'', VFloat 10,
                VStr ''Distribution Center 1 Gerji'', VStr ''ok'']],
      display = show_cell\<rparr>"

definition sheet0 :: gsheet where
  "sheet0 = \<lparr>GSHEET_CONNECTED = True, worksheet = Some worksheet0, HEADERS = DEFAULT_HEADERS\<rparr>"

definition sheet_empty :: gsheet where
  \<comment> \<open>a connected sheet with the header row only\<close>
  "sheet_empty =
     \<lparr>GSHEET_CONNECTED = True,
      worksheet = Some \<lparr>cells = [map VStr DEFAULT_HEADERS], display = show_cell\<rparr>,
      HEADERS = DEFAULT_HEADERS\<rparr>"


definition world0 :: world where
  "world0 = \<lparr>user_data = user_data_clear, gs = sheet0, sent = []\<rparr>"

section \<open>Notions used in the statements\<close>

definition pressed_product :: "string \<Rightarrow> string" where
  \<comment> \<open>the name the handler derives from the callback data of a checklist button\<close>
  "pressed_product d =
     clean_and_format_for_display (py_replace CB_CREATE_BATCH_PRODUCT_TOGGLE_PREFIX [] d)"

definition world9 :: world where
  "world9 = world0\<lparr>user_data := user_data_clear
              \<lparr>batch_selected_products := Some [''Potatoes'', ''Carrot''],
               batch_common_location := Some ''Distribution Center 1 Gerji''\<rparr>\<rparr>"






definition world_update_confirm :: world where
  \<comment> \<open>a session of the update dialog at its confirmation, with a new price for row 2\<close>
  "world_update_confirm =
     world0\<lparr>user_data := user_data_clear
       \<lparr>update_entry_id := Some ''id-1'',
        update_row_num := Some 2,
        update_original_data :=
          Some (dict_of_pairs (zip DEFAULT_HEADERS (ws_row_values worksheet0 2))),
        fields_to_update_selected_keys := Some [''price''],
        new_values_for_update_map := Some [(PRICE_FIELD, VFloat (25 / 2))],
        update_fields_queue := Some [],
        current_field_being_updated_key := Some ''price''\<rparr>\<rparr>"














section \<open>Basic facts about the model\<close>







section \<open>The multi-select screen of the batch dialog\<close>

lemma toggle_distinct: "distinct xs \<Longrightarrow> distinct (toggle x xs)"
  by (simp add: toggle_def)

lemma set_toggle:
  "distinct xs \<Longrightarrow>
   set (toggle x xs) = (if x \<in> set xs then set xs - {x} else insert x (set xs))"
  by (simp add: toggle_def)

lemma toggle_twice_new: "x \<notin> set xs \<Longrightarrow> toggle x (toggle x xs) = xs"
  by (simp add: toggle_def remove1_append)

lemma toggle_twice_old:
  "x \<in> set xs \<Longrightarrow> distinct xs \<Longrightarrow> toggle x (toggle x xs) = remove1 x xs @ [x]"
  by (simp add: toggle_def)

lemma toggle_twice_set: "distinct xs \<Longrightarrow> set (toggle x (toggle x xs)) = set xs"
  by (auto simp add: set_toggle toggle_distinct)

lemma toggle_commute_set:
  "distinct xs \<Longrightarrow> set (toggle y (toggle x xs)) = set (toggle x (toggle y xs))"
  by (auto simp add: set_toggle toggle_distinct split: if_splits)

text \<open>Membership after any sequence of presses depends on how often a product was
  pressed, not on the order of the presses.\<close>

lemma toggle_sequence:
  "distinct xs \<Longrightarrow>
   distinct (foldl (\<lambda>s p. toggle p s) xs ps) \<and>
   set (foldl (\<lambda>s p. toggle p s) xs ps) = {x. (x \<in> set xs) \<noteq> odd (count_list ps x)}"
proof (induction ps arbitrary: xs)
  case Nil
  then show ?case by simp
next
  case (Cons p ps)
  have d: "distinct (toggle p xs)"
    using Cons.prems by (rule toggle_distinct)
  have "set (foldl (\<lambda>s p. toggle p s) (toggle p xs) ps) =
        {x. (x \<in> set (toggle p xs)) \<noteq> odd (count_list ps x)}"
    using Cons.IH [OF d] by simp
  also have "\<dots> = {x. (x \<in> set xs) \<noteq> odd (count_list (p # ps) x)}"
    using Cons.prems by (auto simp add: set_toggle)
  finally show ?case
    using Cons.IH [OF d] by simp
qed

lemma toggle_handler:
  assumes "event upd = ButtonPress d"
    and "batch_selected_products (user_data w) = Some xs"
    and "batch_common_location (user_data w) = Some loc"
  shows "\<exists>w'. toggle_batch_product_selection e upd w = Inr (CREATE_BATCH_TOGGLE_PRODUCTS, w') \<and>
     batch_selected_products (user_data w') = Some (toggle (pressed_product d) xs) \<and>
     batch_common_location (user_data w') = Some loc"
  using assms
  by (simp add: toggle_batch_product_selection_def ask_batch_products_selection_def
      callback_data_def pressed_product_def Let_def say_def set_ud_def ret_def send_or_edit_def)

text \<open>
  Claim C9.  On the multi-select screen of the batch dialog, with a selection \<open>xs\<close> (a list
  without repetition, as the screen keeps it), pressing the button of a product twice in
  succession redraws the screen both times and leaves a selection with the members of
  \<open>xs\<close>: the list \<open>xs\<close> itself when the product was not selected, and \<open>xs\<close> with the
  product moved to the end when it was.  Pressing two buttons in either order leaves
  selections with the same members.
\<close>

theorem toggle_twice_restores_selection:
  assumes "batch_selected_products (user_data w) = Some xs"
    and "distinct xs"
    and "batch_common_location (user_data w) = Some loc"
    and "event p = ButtonPress d"
    and "event q = ButtonPress d'"
  shows "(\<exists>w1 w2 ys.
            toggle_batch_product_selection e1 p w = Inr (CREATE_BATCH_TOGGLE_PRODUCTS, w1) \<and>
            toggle_batch_product_selection e2 p w1 = Inr (CREATE_BATCH_TOGGLE_PRODUCTS, w2) \<and>
            batch_selected_products (user_data w2) = Some ys \<and>
            set ys = set xs \<and> distinct ys \<and>
            ys = (if pressed_product d \<in> set xs then remove1 (pressed_product d) xs @ [pressed_product d]
                  else xs)) \<and>
         (\<exists>w1 w2 w1' w2' ys zs.
            toggle_batch_product_selection e1 p w = Inr (CREATE_BATCH_TOGGLE_PRODUCTS, w1) \<and>
            toggle_batch_product_selection e2 q w1 = Inr (CREATE_BATCH_TOGGLE_PRODUCTS, w2) \<and>
            toggle_batch_product_selection e1 q w = Inr (CREATE_BATCH_TOGGLE_PRODUCTS, w1') \<and>
            toggle_batch_product_selection e2 p w1' = Inr (CREATE_BATCH_TOGGLE_PRODUCTS, w2') \<and>
            batch_selected_products (user_data w2) = Some ys \<and>
            batch_selected_products (user_data w2') = Some zs \<and>
            set ys = set zs)"
proof -
  let ?x = "pressed_product d" and ?y = "pressed_product d'"
  obtain w1 where p1: "toggle_batch_product_selection e1 p w = Inr (CREATE_BATCH_TOGGLE_PRODUCTS, w1)"
    and s1: "batch_selected_products (user_data w1) = Some (toggle ?x xs)"
    and l1: "batch_common_location (user_data w1) = Some loc"
    using toggle_handler [OF assms(4) assms(1) assms(3)] by blast
  obtain w2 where p2: "toggle_batch_product_selection e2 p w1 = Inr (CREATE_BATCH_TOGGLE_PRODUCTS, w2)"
    and s2: "batch_selected_products (user_data w2) = Some (toggle ?x (toggle ?x xs))"
    using toggle_handler [OF assms(4) s1 l1] by blast
  obtain w3 where q2: "toggle_batch_product_selection e2 q w1 = Inr (CREATE_BATCH_TOGGLE_PRODUCTS, w3)"
    and s3: "batch_selected_products (user_data w3) = Some (toggle ?y (toggle ?x xs))"
    using toggle_handler [OF assms(5) s1 l1] by blast
  obtain w1' where q1: "toggle_batch_product_selection e1 q w = Inr (CREATE_BATCH_TOGGLE_PRODUCTS, w1')"
    and s1': "batch_selected_products (user_data w1') = Some (toggle ?y xs)"
    and l1': "batch_common_location (user_data w1') = Some loc"
    using toggle_handler [OF assms(5) assms(1) assms(3)] by blast
  obtain w2' where p2': "toggle_batch_product_selection e2 p w1' = Inr (CREATE_BATCH_TOGGLE_PRODUCTS, w2')"
    and s2': "batch_selected_products (user_data w2') = Some (toggle ?x (toggle ?y xs))"
    using toggle_handler [OF assms(4) s1' l1'] by blast
  have twice: "toggle ?x (toggle ?x xs) = (if ?x \<in> set xs then remove1 ?x xs @ [?x] else xs)"
    using assms(2) by (simp add: toggle_twice_new toggle_twice_old)
  have first: "\<exists>w1 w2 ys.
            toggle_batch_product_selection e1 p w = Inr (CREATE_BATCH_TOGGLE_PRODUCTS, w1) \<and>
            toggle_batch_product_selection e2 p w1 = Inr (CREATE_BATCH_TOGGLE_PRODUCTS, w2) \<and>
            batch_selected_products (user_data w2) = Some ys \<and>
            set ys = set xs \<and> distinct ys \<and>
            ys = (if ?x \<in> set xs then remove1 ?x xs @ [?x] else xs)"
    using p1 p2 s2 twice toggle_twice_set [OF assms(2), of ?x]
      toggle_distinct [OF toggle_distinct [OF assms(2)], of ?x ?x]
    by (intro exI [of _ w1] exI [of _ w2] exI [of _ "toggle ?x (toggle ?x xs)"]) simp
  have second: "\<exists>w1 w2 w1' w2' ys zs.
            toggle_batch_product_selection e1 p w = Inr (CREATE_BATCH_TOGGLE_PRODUCTS, w1) \<and>
            toggle_batch_product_selection e2 q w1 = Inr (CREATE_BATCH_TOGGLE_PRODUCTS, w2) \<and>
            toggle_batch_product_selection e1 q w = Inr (CREATE_BATCH_TOGGLE_PRODUCTS, w1') \<and>
            toggle_batch_product_selection e2 p w1' = Inr (CREATE_BATCH_TOGGLE_PRODUCTS, w2') \<and>
            batch_selected_products (user_data w2) = Some ys \<and>
            batch_selected_products (user_data w2') = Some zs \<and>
            set ys = set zs"
    using p1 q2 q1 p2' s3 s2' toggle_commute_set [OF assms(2), of ?y ?x]
    by (intro exI [of _ w1] exI [of _ w3] exI [of _ w1'] exI [of _ w2']
        exI [of _ "toggle ?y (toggle ?x xs)"] exI [of _ "toggle ?x (toggle ?y xs)"]) simp
  from first second show ?thesis by blast
qed

theorem toggle_twice_restores_selection_witness:
  "\<exists>w1 w2.
     toggle_batch_product_selection env0 (press ''create_b_prod_toggle_carrot'') world9 =
       Inr (CREATE_BATCH_TOGGLE_PRODUCTS, w1) \<and>
     toggle_batch_product_selection env0 (press ''create_b_prod_toggle_carrot'') w1 =
       Inr (CREATE_BATCH_TOGGLE_PRODUCTS, w2) \<and>
     batch_selected_products (user_data w2) = Some [''Potatoes'', ''Carrot'']"
proof -
  have h1: "batch_selected_products (user_data world9) = Some [''Potatoes'', ''Carrot'']"
    by (simp add: world9_def)
  have h2: "distinct [''Potatoes'', ''Carrot'']"
    by simp
  have h3: "batch_common_location (user_data world9) = Some ''Distribution Center 1 Gerji''"
    by (simp add: world9_def)
  have h4: "event (press ''create_b_prod_toggle_carrot'') = ButtonPress ''create_b_prod_toggle_carrot''"
    by (simp add: press_def)
  have pp: "pressed_product ''create_b_prod_toggle_carrot'' = ''Carrot''"
    by code_simp
  from toggle_twice_restores_selection [OF h1 h2 h3 h4 h4, of env0 env0]
  show ?thesis
    unfolding pp by auto
qed

section \<open>Price entry\<close>
















section \<open>The navigation fallback\<close>

lemmas conv_defs = create_conv_handler_def read_conv_handler_def update_conv_handler_def
  delete_conv_handler_def insights_conv_handler_def

lemma new_entry_selected:
  "select_handler create_conv_handler (Some s) (ButtonPress (CB_MAIN_MENU_PREFIX @ ''new'')) =
     Some post_conversation_callback_handler"
  "select_handler read_conv_handler (Some s) (ButtonPress (CB_MAIN_MENU_PREFIX @ ''new'')) =
     Some post_conversation_callback_handler"
  "select_handler update_conv_handler (Some s) (ButtonPress (CB_MAIN_MENU_PREFIX @ ''new'')) =
     Some post_conversation_callback_handler"
  "select_handler delete_conv_handler (Some s) (ButtonPress (CB_MAIN_MENU_PREFIX @ ''new'')) =
     Some post_conversation_callback_handler"
  "select_handler insights_conv_handler (Some s) (ButtonPress (CB_MAIN_MENU_PREFIX @ ''new'')) =
     Some post_conversation_callback_handler"
  by (simp_all add: select_handler_def transitions_def conv_defs cb_defs ends_here_def
      is_digit_def ascii_digits_def)

lemma new_entry_handler:
  assumes "event upd = ButtonPress (CB_MAIN_MENU_PREFIX @ ''new'')"
  shows "post_conversation_callback_handler e upd w =
          start_new_entry e upd (set_ud user_data_clear (say (Answer None False) w))"
  using assms by (simp add: post_conversation_callback_handler_def callback_data_def cb_defs)

lemma start_new_entry_result:
  assumes "event upd = ButtonPress d"
  shows "start_new_entry e upd w =
     Inr (CREATE_CHOOSE_ENTRY_TYPE,
          w\<lparr>user_data := user_data_clear,
            sent := sent w @ [EditMessageText (Msg ''How would you like to add new data?'' [])
               (InlineKeyboardMarkup
                  [[(''Add Single Product'', CB_CREATE_CHOOSE_TYPE_SINGLE)],
                   [(''Add Batch of Products'', CB_CREATE_CHOOSE_TYPE_BATCH)],
                   [(''Cancel'', CB_CREATE_CANCEL_ENTIRE)]])]\<rparr>)"
  using assms by (simp add: start_new_entry_def ret_def send_or_edit_def say_def set_ud_def)

text \<open>
  Claim C3.  In each of the five dialogs and in any state, the press of the button
  \<open>New Entry\<close> of the post-action keyboard is not taken by a transition or by an earlier
  fallback: the shared navigation fallback handles it.  That handler answers the press,
  clears the session and returns what the entry point of the create dialog returns on the
  cleared session, which is the state of the create dialog's first prompt and not \<open>END\<close>;
  what it renders is that prompt.
\<close>

theorem new_entry_button_reenters_create:
  assumes "event upd = ButtonPress (CB_MAIN_MENU_PREFIX @ ''new'')"
  shows "select_handler create_conv_handler (Some s) (event upd) =
           Some post_conversation_callback_handler \<and>
         select_handler read_conv_handler (Some s) (event upd) =
           Some post_conversation_callback_handler \<and>
         select_handler update_conv_handler (Some s) (event upd) =
           Some post_conversation_callback_handler \<and>
         select_handler delete_conv_handler (Some s) (event upd) =
           Some post_conversation_callback_handler \<and>
         select_handler insights_conv_handler (Some s) (event upd) =
           Some post_conversation_callback_handler \<and>
         post_conversation_callback_handler e upd w =
           start_new_entry e upd (set_ud user_data_clear (say (Answer None False) w)) \<and>
         (\<exists>w'. post_conversation_callback_handler e upd w = Inr (CREATE_CHOOSE_ENTRY_TYPE, w') \<and>
               user_data w' = user_data_clear \<and> gs w' = gs w \<and>
               sent w' = sent w @
                 [Answer None False,
                  EditMessageText (Msg ''How would you like to add new data?'' [])
                    (InlineKeyboardMarkup
                       [[(''Add Single Product'', CB_CREATE_CHOOSE_TYPE_SINGLE)],
                        [(''Add Batch of Products'', CB_CREATE_CHOOSE_TYPE_BATCH)],
                        [(''Cancel'', CB_CREATE_CANCEL_ENTIRE)]])]) \<and>
         CREATE_CHOOSE_ENTRY_TYPE \<noteq> END \<and>
         (\<exists>w'. start_new_entry e upd w = Inr (CREATE_CHOOSE_ENTRY_TYPE, w'))"
proof -
  have sel: "select_handler create_conv_handler (Some s) (event upd) =
           Some post_conversation_callback_handler \<and>
         select_handler read_conv_handler (Some s) (event upd) =
           Some post_conversation_callback_handler \<and>
         select_handler update_conv_handler (Some s) (event upd) =
           Some post_conversation_callback_handler \<and>
         select_handler delete_conv_handler (Some s) (event upd) =
           Some post_conversation_callback_handler \<and>
         select_handler insights_conv_handler (Some s) (event upd) =
           Some post_conversation_callback_handler"
    using new_entry_selected [of s] assms by simp
  have h: "post_conversation_callback_handler e upd w =
           start_new_entry e upd (set_ud user_data_clear (say (Answer None False) w))"
    using assms by (rule new_entry_handler)
  have r: "\<exists>w'. post_conversation_callback_handler e upd w = Inr (CREATE_CHOOSE_ENTRY_TYPE, w') \<and>
               user_data w' = user_data_clear \<and> gs w' = gs w \<and>
               sent w' = sent w @
                 [Answer None False,
                  EditMessageText (Msg ''How would you like to add new data?'' [])
                    (InlineKeyboardMarkup
                       [[(''Add Single Product'', CB_CREATE_CHOOSE_TYPE_SINGLE)],
                        [(''Add Batch of Products'', CB_CREATE_CHOOSE_TYPE_BATCH)],
                        [(''Cancel'', CB_CREATE_CANCEL_ENTIRE)]])]"
    unfolding h start_new_entry_result [OF assms]
    by (simp add: set_ud_def say_def)
  have n: "CREATE_CHOOSE_ENTRY_TYPE \<noteq> END"
    by (simp add: state_defs)
  have f: "\<exists>w'. start_new_entry e upd w = Inr (CREATE_CHOOSE_ENTRY_TYPE, w')"
    unfolding start_new_entry_result [OF assms] by simp
  from sel h r n f show ?thesis by blast
qed

theorem new_entry_button_reenters_create_witness:
  "select_handler update_conv_handler (Some UPDATE_CONFIRM_MULTIPLE) (ButtonPress ''menu_nav_new'') =
     Some post_conversation_callback_handler \<and>
   (\<exists>w'. post_conversation_callback_handler env0 (press ''menu_nav_new'') world9 =
            Inr (CREATE_CHOOSE_ENTRY_TYPE, w') \<and> user_data w' = user_data_clear)"
proof -
  have h: "event (press ''menu_nav_new'') = ButtonPress (CB_MAIN_MENU_PREFIX @ ''new'')"
    by (simp add: press_def cb_defs)
  have e: "event (press ''menu_nav_new'') = ButtonPress ''menu_nav_new''"
    by (simp add: press_def)
  from new_entry_button_reenters_create [OF h, of UPDATE_CONFIRM_MULTIPLE env0 world9]
  show ?thesis unfolding e by blast
qed

section \<open>Pagination of the last entries\<close>

lemma view_no_entries:
  assumes "event upd = ButtonPress d" and "worksheet (gs w) = Some ws" and "\<not> api_raises e"
    and "length (cells ws) \<le> 1"
  shows "view_last_entries_callback e upd w =
     Inr (END, say (EditMessageText (Msg (escape_markdown_v2
              ''The sheet has no data entries.\<newline>\<newline>What would you like to do next?'') [])
              build_post_action_keyboard)
            (say (EditMessageText (Msg (escape_markdown_v2 ''Fetching entries...'') []) NoMarkup)
               (say (Answer None False) w)))"
  using assms
  by (simp add: view_last_entries_callback_def callback_data_def Let_def say_def ret_def
      ws_get_all_values_def)

lemma view_no_more_entries:
  assumes "event upd = ButtonPress d" and "worksheet (gs w) = Some ws" and "\<not> api_raises e"
    and "1 < length (cells ws)"
    and "take DEFAULT_ENTRIES_PER_PAGE_VIEW
           (drop (requested_page d * DEFAULT_ENTRIES_PER_PAGE_VIEW)
              (rev (tl (ws_get_all_values ws)))) = []"
  shows "view_last_entries_callback e upd w =
     Inr (VIEW_PAGINATING_ENTRIES, say (Answer (Some ''No more entries to display.'') True)
            (say (EditMessageText (Msg (escape_markdown_v2 ''Fetching entries...'') []) NoMarkup)
               (say (Answer None False) w)))"
  using assms
  by (simp add: view_last_entries_callback_def callback_data_def Let_def say_def ret_def
      ws_get_all_values_def)

text \<open>
  Claim C5 as stated calls the answer beyond the last page a non-alert response.  On a
  sheet with one entry, the request for page 1 is answered with \<open>show_alert=True\<close>.
\<close>

theorem no_more_entries_is_an_alert:
  "view_last_entries_callback env0 (press ''view_last_1'') world0 =
     Inr (VIEW_PAGINATING_ENTRIES,
          say (Answer (Some ''No more entries to display.'') True)
            (say (EditMessageText (Msg (escape_markdown_v2 ''Fetching entries...'') []) NoMarkup)
               (say (Answer None False) world0)))"
proof -
  have p: "requested_page ''view_last_1'' = 1"
    by code_simp
  have a: "event (press ''view_last_1'') = ButtonPress ''view_last_1''"
    by (simp add: press_def)
  have b: "worksheet (gs world0) = Some worksheet0"
    by (simp add: world0_def sheet0_def)
  have c: "\<not> api_raises env0"
    by (simp add: env0_def)
  have d: "1 < length (cells worksheet0)"
    by (simp add: worksheet0_def)
  have e: "take DEFAULT_ENTRIES_PER_PAGE_VIEW
             (drop (requested_page ''view_last_1'' * DEFAULT_ENTRIES_PER_PAGE_VIEW)
                (rev (tl (ws_get_all_values worksheet0)))) = []"
    unfolding p
    by (simp add: worksheet0_def ws_get_all_values_def DEFAULT_ENTRIES_PER_PAGE_VIEW_def)
  show ?thesis
    using a b c d e by (rule view_no_more_entries)
qed

text \<open>
  Claim C5, amended.  With the sheet reachable: when it holds no entry below the header
  row, a request for any page (page 0 among them) is answered with the text that the
  sheet has no data entries and the post-action keyboard, and the dialog ends; when it
  holds entries and the slice of the requested page is empty, the press is answered with
  the text that there are no more entries, shown as an alert, and the handler returns the
  pagination state; session and sheet are unchanged in both cases.
\<close>

theorem pagination_boundaries:
  assumes "event upd = ButtonPress d" and "worksheet (gs w) = Some ws" and "\<not> api_raises e"
  shows "(length (cells ws) \<le> 1 \<longrightarrow>
            (\<exists>w'. view_last_entries_callback e upd w = Inr (END, w') \<and>
                  user_data w' = user_data w \<and> gs w' = gs w \<and>
                  sent w' = sent w @
                    [Answer None False,
                     EditMessageText (Msg (escape_markdown_v2 ''Fetching entries...'') []) NoMarkup,
                     EditMessageText (Msg (escape_markdown_v2
                        ''The sheet has no data entries.\<newline>\<newline>What would you like to do next?'') [])
                        build_post_action_keyboard])) \<and>
         (1 < length (cells ws) \<and>
          take DEFAULT_ENTRIES_PER_PAGE_VIEW
            (drop (requested_page d * DEFAULT_ENTRIES_PER_PAGE_VIEW)
               (rev (tl (ws_get_all_values ws)))) = [] \<longrightarrow>
            (\<exists>w'. view_last_entries_callback e upd w = Inr (VIEW_PAGINATING_ENTRIES, w') \<and>
                  user_data w' = user_data w \<and> gs w' = gs w \<and>
                  sent w' = sent w @
                    [Answer None False,
                     EditMessageText (Msg (escape_markdown_v2 ''Fetching entries...'') []) NoMarkup,
                     Answer (Some ''No more entries to display.'') True]))"
  using view_no_entries [OF assms] view_no_more_entries [OF assms]
  by (simp add: say_def)

theorem pagination_boundaries_witness:
  "(\<exists>w'. view_last_entries_callback env0 (press ''view_last_0'') (world0\<lparr>gs := sheet_empty\<rparr>) =
           Inr (END, w') \<and> user_data w' = user_data_clear) \<and>
   (\<exists>w'. view_last_entries_callback env0 (press ''view_last_1'') world0 =
           Inr (VIEW_PAGINATING_ENTRIES, w') \<and>
         sent w' = [Answer None False,
                    EditMessageText (Msg (escape_markdown_v2 ''Fetching entries...'') []) NoMarkup,
                    Answer (Some ''No more entries to display.'') True])"
proof -
  have p: "requested_page ''view_last_1'' = 1"
    by code_simp
  have a: "event (press ''view_last_0'') = ButtonPress ''view_last_0''"
    and b: "event (press ''view_last_1'') = ButtonPress ''view_last_1''"
    by (simp_all add: press_def)
  have c: "worksheet (gs (world0\<lparr>gs := sheet_empty\<rparr>)) =
             Some \<lparr>cells = [map VStr DEFAULT_HEADERS], display = show_cell\<rparr>"
    and d: "worksheet (gs world0) = Some worksheet0"
    and e: "\<not> api_raises env0"
    by (simp_all add: sheet_empty_def world0_def sheet0_def env0_def)
  have f: "1 < length (cells worksheet0) \<and>
           take DEFAULT_ENTRIES_PER_PAGE_VIEW
             (drop (requested_page ''view_last_1'' * DEFAULT_ENTRIES_PER_PAGE_VIEW)
                (rev (tl (ws_get_all_values worksheet0)))) = []"
    unfolding p
    by (simp add: worksheet0_def ws_get_all_values_def DEFAULT_ENTRIES_PER_PAGE_VIEW_def)
  have g: "length (cells \<lparr>cells = [map VStr DEFAULT_HEADERS], display = show_cell\<rparr>) \<le> 1"
    by simp
  have u: "user_data (world0\<lparr>gs := sheet_empty\<rparr>) = user_data_clear" and v: "sent world0 = []"
    by (simp_all add: world0_def)
  from pagination_boundaries [OF a c e] g u
  have first: "\<exists>w'. view_last_entries_callback env0 (press ''view_last_0'') (world0\<lparr>gs := sheet_empty\<rparr>) =
           Inr (END, w') \<and> user_data w' = user_data_clear"
    by auto
  from pagination_boundaries [OF b d e] f v
  have second: "\<exists>w'. view_last_entries_callback env0 (press ''view_last_1'') world0 =
           Inr (VIEW_PAGINATING_ENTRIES, w') \<and>
         sent w' = [Answer None False,
                    EditMessageText (Msg (escape_markdown_v2 ''Fetching entries...'') []) NoMarkup,
                    Answer (Some ''No more entries to display.'') True]"
    by auto
  from first second show ?thesis ..
qed

section \<open>The commit handlers\<close>

lemma submit_single_ends:
  assumes "event upd = ButtonPress d"
  shows "\<exists>w'. submit_single_entry_data e upd w = Inr (END, w') \<and> user_data w' = user_data_clear"
  using assms
  by (simp add: submit_single_entry_data_def callback_data_def Let_def ret_def set_ud_def
      split: prod.splits)

lemma submit_batch_ends:
  assumes "event upd = ButtonPress d"
  shows "\<exists>w'. submit_batch_data e upd w = Inr (END, w') \<and> user_data w' = user_data_clear"
  using assms
  by (simp add: submit_batch_data_def callback_data_def Let_def ret_def set_ud_def
      split: prod.splits)

lemma confirm_delete_ends:
  assumes "event upd = ButtonPress d"
    and "delete_row_num (user_data w) = Some r" and "delete_entry_id (user_data w) = Some i"
  shows "\<exists>w'. confirm_delete_callback e upd w = Inr (END, w') \<and> user_data w' = user_data_clear"
  using assms
  by (simp add: confirm_delete_callback_def callback_data_def Let_def ret_def set_ud_def say_def
      split: prod.splits)

lemma execute_ends_when_the_call_returns:
  assumes "event upd = ButtonPress d"
    and "update_row_num (user_data w) = Some r" and "update_entry_id (user_data w) = Some i"
    and "new_values_for_update_map (user_data w) = Some nv"
    and "worksheet (gs w) = Some ws" and "\<not> api_raises e"
  shows "\<exists>w'. execute_multiple_updates e upd w = Inr (END, w') \<and> user_data w' = user_data_clear"
  using assms
  by (simp add: execute_multiple_updates_def callback_data_def Let_def ret_def set_ud_def say_def
      split: prod.splits)

text \<open>
  Claim C7.  The submit handlers of the create dialog and the delete confirmation clear
  the session and return \<open>END\<close> whatever the store does (the three lemmas above: the
  helpers they call turn a failed call into \<open>False\<close>).  The update handler calls the
  worksheet directly: when that call fails, the exception leaves the handler, which has
  neither cleared the session nor returned \<open>END\<close>.  Below, the confirmation of a price
  change for row 2 while the remote call fails.
\<close>

theorem update_write_failure_escapes:
  "execute_multiple_updates (env0\<lparr>api_raises := True\<rparr>) (press CB_UPDATE_EXECUTE_CONFIRMED)
     world_update_confirm =
   Inl (APIError,
        say (EditMessageText (Msg ''Applying updates...'' []) NoMarkup)
          (say (Answer None False) world_update_confirm)) \<and>
   new_values_for_update_map (user_data world_update_confirm) = Some [(PRICE_FIELD, VFloat (25 / 2))]"
  by (simp add: execute_multiple_updates_def callback_data_def press_def world_update_confirm_def
      world0_def sheet0_def update_ops_of_def DEFAULT_HEADERS_def field_defs say_def Let_def)

section \<open>A store that is not ready\<close>












section \<open>The update dialog\<close>















section \<open>The insights computation\<close>











section \<open>Normalised names\<close>




























end
